theory Spec2Isabelle
  imports Complex_Main
begin

section \<open>Composition mesh of the phase diagram calculator\<close>

text \<open>
  The development follows \<^verbatim>\<open>phase_diagram_calculator.py\<close>. Floating-point numbers are
  modelled by exact rationals, so every statement below is about exact arithmetic.
  A numpy array of shape \<open>(k, n)\<close> is a list of \<open>k\<close> rows, each a list of \<open>n\<close> entries.
\<close>

datatype error =
    IndexError
  | ZeroDivisionError
  | OSError
  | PicklingError
  | UnpicklingError
  | EngineError
  | UnrecoverableCalculationException

type_synonym matrix = "rat list list"

definition bind_res :: "error + 'a \<Rightarrow> ('a \<Rightarrow> error + 'b) \<Rightarrow> error + 'b" where
  "bind_res r f = (case r of Inl e \<Rightarrow> Inl e | Inr x \<Rightarrow> f x)"

text \<open>\<^verbatim>\<open>np.zeros((k, n))\<close>.\<close>

definition np_zeros :: "nat \<Rightarrow> nat \<Rightarrow> matrix" where
  "np_zeros k n = replicate k (replicate n 0)"

text \<open>
  \<^verbatim>\<open>np.linspace(start, stop, num)\<close> with the default \<^verbatim>\<open>endpoint=True\<close>: \<open>num\<close> evenly spaced
  samples, the step being \<open>(stop - start) / (num - 1)\<close>; a single sample is \<open>start\<close>, and no
  sample at all is the empty array.
\<close>

definition np_linspace :: "rat \<Rightarrow> rat \<Rightarrow> nat \<Rightarrow> rat list" where
  "np_linspace start stop num =
     (if num = 1 then [start]
      else map (\<lambda>i. start + of_nat i * ((stop - start) / of_nat (num - 1))) [0..<num])"

text \<open>
  An index along an axis of size \<open>k\<close>: numpy counts a negative index from the end and
  raises \<^verbatim>\<open>IndexError\<close> outside \<open>[-k, k)\<close>.
\<close>

definition norm_index :: "nat \<Rightarrow> int \<Rightarrow> nat option" where
  "norm_index k idx =
     (if 0 \<le> idx \<and> idx < int k then Some (nat idx)
      else if - int k \<le> idx \<and> idx < 0 then Some (nat (idx + int k))
      else None)"

text \<open>\<^verbatim>\<open>input_concentrations[idx, i] = v\<close>.\<close>

definition setitem :: "matrix \<Rightarrow> int \<Rightarrow> nat \<Rightarrow> rat \<Rightarrow> error + matrix" where
  "setitem m idx i v =
     (case norm_index (length m) idx of
        None \<Rightarrow> Inl IndexError
      | Some r \<Rightarrow>
          if i < length (m ! r) then Inr (m[r := (m ! r)[i := v]]) else Inl IndexError)"

text \<open>\<^verbatim>\<open>xs[j]\<close> for a literal position \<open>j \<ge> 0\<close>.\<close>

definition list_getitem :: "'a list \<Rightarrow> nat \<Rightarrow> error + 'a" where
  "list_getitem xs j = (if j < length xs then Inr (xs ! j) else Inl IndexError)"

text \<open>The inner loop \<^verbatim>\<open>for idx in indices_of_constant_elements\<close> at column \<open>i\<close>.\<close>

fun set_constant_elements :: "matrix \<Rightarrow> nat \<Rightarrow> int list \<Rightarrow> rat \<Rightarrow> error + matrix" where
  "set_constant_elements m i [] c = Inr m"
| "set_constant_elements m i (idx # idxs) c =
     bind_res (setitem m idx i c) (\<lambda>m'. set_constant_elements m' i idxs c)"

text \<open>The body of the loop \<^verbatim>\<open>for i in range(n)\<close>.\<close>

definition mesh_column ::
  "matrix \<Rightarrow> rat list \<Rightarrow> nat \<Rightarrow> int list \<Rightarrow> int list \<Rightarrow> rat \<Rightarrow> error + matrix" where
  "mesh_column m mole_fractions i chg const c =
     bind_res (set_constant_elements m i const c) (\<lambda>m1.
     bind_res (list_getitem mole_fractions i) (\<lambda>x.
     bind_res (list_getitem chg 0) (\<lambda>a.
     bind_res (setitem m1 a i x) (\<lambda>m2.
     bind_res (list_getitem chg 1) (\<lambda>b.
     setitem m2 b i (1 - x - 3 * c))))))"

fun mesh_loop ::
  "matrix \<Rightarrow> rat list \<Rightarrow> nat list \<Rightarrow> int list \<Rightarrow> int list \<Rightarrow> rat \<Rightarrow> error + matrix" where
  "mesh_loop m mole_fractions [] chg const c = Inr m"
| "mesh_loop m mole_fractions (i # is) chg const c =
     bind_res (mesh_column m mole_fractions i chg const c) (\<lambda>m'.
       mesh_loop m' mole_fractions is chg const c)"

definition mesh_concentrations ::
  "string list \<Rightarrow> nat \<Rightarrow> int list \<Rightarrow> int list \<Rightarrow> rat \<Rightarrow> error + matrix" where
  "mesh_concentrations element_list n indices_of_changing_elements
       indices_of_constant_elements constant_concentration_of_other_elements =
     (let n_elements = length element_list;
          input_concentrations = np_zeros n_elements n;
          mole_fractions =
            np_linspace 0 (1 - 3 * constant_concentration_of_other_elements) n
      in mesh_loop input_concentrations mole_fractions [0..<n]
           indices_of_changing_elements indices_of_constant_elements
           constant_concentration_of_other_elements)"

text \<open>The sum of column \<open>i\<close> of a matrix.\<close>

definition column_sum :: "matrix \<Rightarrow> nat \<Rightarrow> rat" where
  "column_sum m i = sum_list (map (\<lambda>row. row ! i) m)"

text \<open>
  The indices that numpy accepts along an axis of size \<open>k\<close>, and the row that an accepted
  index denotes.
\<close>

definition in_range :: "nat \<Rightarrow> int \<Rightarrow> bool" where
  "in_range k idx = (- int k \<le> idx \<and> idx < int k)"

definition row_of :: "nat \<Rightarrow> int \<Rightarrow> nat" where
  "row_of k idx = nat (if idx < 0 then idx + int k else idx)"

text \<open>A matrix of shape \<open>(k, n)\<close>.\<close>

definition wf_matrix :: "nat \<Rightarrow> nat \<Rightarrow> matrix \<Rightarrow> bool" where
  "wf_matrix k n m = (length m = k \<and> (\<forall>r<k. length (m ! r) = n))"

section \<open>Saving results and running the calculations\<close>

text \<open>
  The thermodynamics engine, \<^verbatim>\<open>pickle\<close>, the formatting of floats and the operating system
  are not part of the program: they are parameters of the model, collected in an
  environment. The program's effects are the files it writes and the sequence of events
  it causes, both kept in an explicit state.
\<close>

text \<open>
  The calculation that the builder chain of \<^verbatim>\<open>run_phase_diagram_calculations\<close> describes:
  database and elements, the two axes, and the four composition conditions.
\<close>

record request =
  req_database :: string
  req_elements :: "string list"
  first_axis_max :: rat
  first_axis_max_step_size :: rat
  second_axis_min :: rat
  second_axis_max :: rat
  second_axis_min_nr_of_steps :: nat
  condition_Cr :: rat
  condition_Co :: rat
  condition_Fe :: rat
  condition_Ni :: rat

text \<open>
  What a call of the engine does: it returns its result, raises
  \<^verbatim>\<open>UnrecoverableCalculationException\<close>, or raises any other exception.
\<close>

datatype 'g outcome = Calculated 'g | Unrecoverable | OtherFailure

text \<open>
  The observable events. For grid index \<open>i\<close> of the mesh of constant concentration \<open>c\<close>,
  \<open>SelectSystem c i db els\<close> is the start of the builder chain, which hands the database
  and the elements to the engine, and \<open>Calculate c i req\<close> is the finished request \<open>req\<close>
  handed to the engine. The engine is asked with the number of the system being
  calculated, so that its answer may differ between two equal requests.
\<close>

datatype event =
    PrintCalculating nat
  | SessionEnter
  | SelectSystem rat nat string "string list"
  | Calculate rat nat request
  | SessionExit
  | PrintSaved string
  | PrintCouldNotCalculate
  | Makedirs string

record 'g env =
  select_system :: "nat \<Rightarrow> string \<Rightarrow> string list \<Rightarrow> unit outcome"
  engine :: "nat \<Rightarrow> request \<Rightarrow> 'g outcome"
  float_str :: "rat \<Rightarrow> string"
  pickle_dumps :: "'g \<Rightarrow> string option"
  pickle_loads :: "string \<Rightarrow> 'g option"
  can_open_wb :: "string \<Rightarrow> bool"
  can_makedirs :: "string \<Rightarrow> bool"

record state =
  files :: "(string \<times> string) list"
  dirs :: "string list"
  trace :: "event list"
  counter :: nat

record params =
  element_list :: "string list"
  constant_C_of_others :: "rat list"
  n_iterations :: nat
  indices_of_changing_elements :: "int list"
  indices_of_constant_elements :: "int list"
  database :: string
  temperature_range :: "rat \<times> rat"
  steps_in_temperature :: nat
  output_dir :: string

definition emit :: "event \<Rightarrow> state \<Rightarrow> state" where
  "emit e st = st\<lparr>trace := trace st @ [e]\<rparr>"

text \<open>Writing the whole content of a file replaces what the path held before.\<close>

definition write_file :: "(string \<times> string) list \<Rightarrow> string \<Rightarrow> string \<Rightarrow> (string \<times> string) list" where
  "write_file fs path content = (path, content) # filter (\<lambda>e. fst e \<noteq> path) fs"

text \<open>
  \<^verbatim>\<open>save_groups\<close>: \<^verbatim>\<open>open(filename, "wb")\<close> raises when the path cannot be opened for writing
  and creates or truncates the file otherwise; \<^verbatim>\<open>pickle.dump\<close> then raises on a value it
  cannot serialise, or writes the serialised bytes.
\<close>

definition save_groups :: "'g env \<Rightarrow> state \<Rightarrow> 'g \<Rightarrow> string \<Rightarrow> (error + unit) \<times> state" where
  "save_groups env st groups filename =
     (if can_open_wb env filename then
        (let st1 = st\<lparr>files := write_file (files st) filename []\<rparr>
         in case pickle_dumps env groups of
              None \<Rightarrow> (Inl PicklingError, st1)
            | Some content \<Rightarrow>
                (Inr (), st1\<lparr>files := write_file (files st1) filename content\<rparr>))
      else (Inl OSError, st))"

text \<open>
  \<^verbatim>\<open>load_groups\<close>: \<^verbatim>\<open>open(filename, "rb")\<close> raises when there is no such file;
  \<^verbatim>\<open>pickle.load\<close> raises on bytes it cannot read back.
\<close>

definition load_groups :: "'g env \<Rightarrow> state \<Rightarrow> string \<Rightarrow> error + 'g" where
  "load_groups env st filename =
     (case map_of (files st) filename of
        None \<Rightarrow> Inl OSError
      | Some content \<Rightarrow>
          (case pickle_loads env content of
             None \<Rightarrow> Inl UnpicklingError
           | Some groups \<Rightarrow> Inr groups))"

text \<open>\<^verbatim>\<open>os.path.join(a, b)\<close> on a POSIX system.\<close>

definition os_path_join :: "string \<Rightarrow> string \<Rightarrow> string" where
  "os_path_join a b =
     (if b \<noteq> [] \<and> hd b = CHR ''/'' then b
      else if a = [] \<or> last a = CHR ''/'' then a @ b
      else a @ ''/'' @ b)"

text \<open>
  Python's \<^verbatim>\<open>round(x, ndigits)\<close> over exact arithmetic: to the nearest multiple of
  \<open>10\<^sup>-\<^sup>n\<close>, a tie going to the even multiple.
\<close>

definition round_half_even :: "rat \<Rightarrow> int" where
  "round_half_even x =
     (let f = \<lfloor>x\<rfloor>; d = x - of_int f
      in if d < 1 / 2 then f
         else if 1 / 2 < d then f + 1
         else if even f then f else f + 1)"

definition py_round :: "rat \<Rightarrow> nat \<Rightarrow> rat" where
  "py_round x ndigits = of_int (round_half_even (x * 10 ^ ndigits)) / 10 ^ ndigits"

text \<open>\<^verbatim>\<open>input_concentrations[r, i]\<close> for a literal row \<open>r \<ge> 0\<close>.\<close>

definition getitem :: "matrix \<Rightarrow> nat \<Rightarrow> nat \<Rightarrow> error + rat" where
  "getitem m r i =
     (if r < length m \<and> i < length (m ! r) then Inr (m ! r ! i) else Inl IndexError)"

text \<open>
  The file name \<^verbatim>\<open>f"Al{Al_x}-Cr{Cr_x}-Co{Co_x}-Fe{Fe_x}-Ni{Ni_x}.pkl"\<close>, the floats being
  formatted by \<open>fstr\<close>.
\<close>

definition pkl_filename :: "(rat \<Rightarrow> string) \<Rightarrow> rat \<Rightarrow> rat \<Rightarrow> rat \<Rightarrow> rat \<Rightarrow> rat \<Rightarrow> string" where
  "pkl_filename fstr Al_x Cr_x Co_x Fe_x Ni_x =
     ''Al'' @ fstr Al_x @ ''-Cr'' @ fstr Cr_x @ ''-Co'' @ fstr Co_x @
     ''-Fe'' @ fstr Fe_x @ ''-Ni'' @ fstr Ni_x @ ''.pkl''"

text \<open>
  The request that the builder chain assembles; the step size of the first axis divides
  by \<open>max_concentration_on_x_axis\<close> (the caller has excluded 0).
\<close>

definition build_request :: "params \<Rightarrow> rat \<Rightarrow> rat \<Rightarrow> rat \<Rightarrow> rat \<Rightarrow> rat \<Rightarrow> request" where
  "build_request P Cr_x Co_x Fe_x Ni_x max_concentration_on_x_axis =
     \<lparr> req_database = database P,
       req_elements = element_list P,
       first_axis_max = max_concentration_on_x_axis,
       first_axis_max_step_size = (25 / 1000) / max_concentration_on_x_axis,
       second_axis_min = fst (temperature_range P),
       second_axis_max = snd (temperature_range P),
       second_axis_min_nr_of_steps = steps_in_temperature P,
       condition_Cr = Cr_x, condition_Co = Co_x,
       condition_Fe = Fe_x, condition_Ni = Ni_x \<rparr>"

text \<open>
  The body of \<^verbatim>\<open>with TCPython() as session\<close>, in the order of evaluation of the builder
  chain: the database and the elements are selected and the system is fetched from the
  engine (\<open>select_system\<close>); the arguments of the first axis are evaluated, where
  \<^verbatim>\<open>0.025 / max_concentration_on_x_axis\<close> raises when the divisor is 0; the finished request
  is calculated and grouped by the engine (\<open>engine\<close>); and the result is saved under the
  name made of the five mole fractions. The session itself is taken to start.
\<close>

definition session_body ::
  "'g env \<Rightarrow> params \<Rightarrow> rat \<Rightarrow> nat \<Rightarrow> rat \<Rightarrow> rat \<Rightarrow> rat \<Rightarrow> rat \<Rightarrow> rat \<Rightarrow> rat \<Rightarrow> state
     \<Rightarrow> (error + unit) \<times> state" where
  "session_body env P c i Al_x Cr_x Co_x Fe_x Ni_x max_concentration_on_x_axis st =
     (let st0 = emit (SelectSystem c i (database P) (element_list P)) st
      in case select_system env (counter st) (database P) (element_list P) of
           Unrecoverable \<Rightarrow> (Inl UnrecoverableCalculationException, st0)
         | OtherFailure \<Rightarrow> (Inl EngineError, st0)
         | Calculated system \<Rightarrow>
             (if max_concentration_on_x_axis = 0 then (Inl ZeroDivisionError, st0)
              else
                (let req = build_request P Cr_x Co_x Fe_x Ni_x max_concentration_on_x_axis;
                     st1 = emit (Calculate c i req) st0
                 in case engine env (counter st) req of
                      Unrecoverable \<Rightarrow> (Inl UnrecoverableCalculationException, st1)
                    | OtherFailure \<Rightarrow> (Inl EngineError, st1)
                    | Calculated phase_diagram \<Rightarrow>
                        (let filename = pkl_filename (float_str env) Al_x Cr_x Co_x Fe_x Ni_x;
                             filepath = os_path_join (output_dir P) filename
                         in case save_groups env st1 phase_diagram filepath of
                              (Inl e, st2) \<Rightarrow> (Inl e, st2)
                            | (Inr u, st2) \<Rightarrow>
                                (Inr (), emit (PrintSaved filepath) st2)))))"

text \<open>
  The \<^verbatim>\<open>with\<close> statement: the session is entered, the body runs, and the session is left
  whether the body returned or raised.
\<close>

definition with_session ::
  "(state \<Rightarrow> (error + unit) \<times> state) \<Rightarrow> state \<Rightarrow> (error + unit) \<times> state" where
  "with_session body st =
     (case body (emit SessionEnter st) of (r, st') \<Rightarrow> (r, emit SessionExit st'))"

text \<open>
  One iteration of the inner loop, for grid index \<open>i\<close> of the mesh \<open>m\<close>: the
  \<^verbatim>\<open>try\<close> statement catches \<^verbatim>\<open>UnrecoverableCalculationException\<close> and nothing else.
\<close>

definition process_point ::
  "'g env \<Rightarrow> params \<Rightarrow> matrix \<Rightarrow> rat \<Rightarrow> nat \<Rightarrow> state \<Rightarrow> (error + unit) \<times> state" where
  "process_point env P m c i st =
     (let st1 = st\<lparr>counter := counter st + 1\<rparr>;
          st2 = emit (PrintCalculating (counter st1)) st1
      in case getitem m 0 i of Inl e \<Rightarrow> (Inl e, st2) | Inr Al_x \<Rightarrow>
         (case getitem m 1 i of Inl e \<Rightarrow> (Inl e, st2) | Inr Cr_x \<Rightarrow>
         (case getitem m 2 i of Inl e \<Rightarrow> (Inl e, st2) | Inr Co_x \<Rightarrow>
         (case getitem m 3 i of Inl e \<Rightarrow> (Inl e, st2) | Inr Fe_x \<Rightarrow>
         (case getitem m 4 i of Inl e \<Rightarrow> (Inl e, st2) | Inr Ni_x \<Rightarrow>
           (let max_concentration_on_x_axis =
                  py_round (1 - Cr_x - Co_x - Fe_x - Ni_x) 3
            in case with_session
                      (session_body env P c i Al_x Cr_x Co_x Fe_x Ni_x
                         max_concentration_on_x_axis) st2 of
                 (Inl UnrecoverableCalculationException, st3) \<Rightarrow>
                   (Inr (), emit PrintCouldNotCalculate st3)
               | (r, st3) \<Rightarrow> (r, st3)))))))"

text \<open>The loop \<^verbatim>\<open>for i in range(1, input_concentrations.shape[1] - 1)\<close>.\<close>

fun points_loop ::
  "'g env \<Rightarrow> params \<Rightarrow> matrix \<Rightarrow> rat \<Rightarrow> nat list \<Rightarrow> state \<Rightarrow> (error + unit) \<times> state" where
  "points_loop env P m c [] st = (Inr (), st)"
| "points_loop env P m c (i # is) st =
     (case process_point env P m c i st of
        (Inl e, st') \<Rightarrow> (Inl e, st')
      | (Inr u, st') \<Rightarrow> points_loop env P m c is st')"

text \<open>
  The loop \<^verbatim>\<open>for j in constant_C_of_others\<close>. The mesh has \<open>n\<close> columns, so
  \<^verbatim>\<open>range(1, shape[1] - 1)\<close> is \<open>[1..<n - 1]\<close>, which is empty for \<open>n \<le> 2\<close>.
\<close>

fun concentrations_loop ::
  "'g env \<Rightarrow> params \<Rightarrow> rat list \<Rightarrow> state \<Rightarrow> (error + unit) \<times> state" where
  "concentrations_loop env P [] st = (Inr (), st)"
| "concentrations_loop env P (j # js) st =
     (case mesh_concentrations (element_list P) (n_iterations P)
             (indices_of_changing_elements P) (indices_of_constant_elements P) j of
        Inl e \<Rightarrow> (Inl e, st)
      | Inr input_concentrations \<Rightarrow>
          (case points_loop env P input_concentrations j
                  [1..<n_iterations P - 1] st of
             (Inl e, st') \<Rightarrow> (Inl e, st')
           | (Inr u, st') \<Rightarrow> concentrations_loop env P js st'))"

text \<open>\<^verbatim>\<open>os.path.exists\<close> and \<^verbatim>\<open>os.makedirs\<close>.\<close>

definition path_exists :: "state \<Rightarrow> string \<Rightarrow> bool" where
  "path_exists st path = (path \<in> set (dirs st) \<or> path \<in> fst ` set (files st))"

definition os_makedirs :: "'g env \<Rightarrow> state \<Rightarrow> string \<Rightarrow> (error + unit) \<times> state" where
  "os_makedirs env st path =
     (if can_makedirs env path
      then (Inr (), emit (Makedirs path) (st\<lparr>dirs := path # dirs st\<rparr>))
      else (Inl OSError, st))"

text \<open>
  \<^verbatim>\<open>run_phase_diagram_calculations\<close>, started on a file system \<open>st0\<close>; the events and the
  counter are those of this run.
\<close>

definition run_phase_diagram_calculations ::
  "'g env \<Rightarrow> params \<Rightarrow> state \<Rightarrow> (error + unit) \<times> state" where
  "run_phase_diagram_calculations env P st0 =
     (let st = st0\<lparr>trace := [], counter := 0\<rparr>
      in case (if path_exists st (output_dir P) then (Inr (), st)
               else os_makedirs env st (output_dir P)) of
           (Inl e, st') \<Rightarrow> (Inl e, st')
         | (Inr u, st') \<Rightarrow>
             concentrations_loop env P (constant_C_of_others P) (st'\<lparr>counter := 0\<rparr>))"






text \<open>
  Grid index \<open>i\<close> of a mesh \<open>m\<close>: whether the five rows that the program reads have a
  column \<open>i\<close>, the rounded bound of the first axis, the request, and the path of the result
  file, as the loop body computes them; and what the engine does when it is asked for this
  grid point as system number \<open>k\<close>: it raises \<^verbatim>\<open>UnrecoverableCalculationException\<close> (when the
  system is selected or when the request is calculated), it raises another exception, or
  it calculates the result \<open>g\<close>.
\<close>

definition has_point :: "matrix \<Rightarrow> nat \<Rightarrow> bool" where
  "has_point m i =
     (5 \<le> length m \<and> i < length (m ! 0) \<and> i < length (m ! 1) \<and> i < length (m ! 2) \<and>
      i < length (m ! 3) \<and> i < length (m ! 4))"

definition max_concentration :: "matrix \<Rightarrow> nat \<Rightarrow> rat" where
  "max_concentration m i = py_round (1 - m ! 1 ! i - m ! 2 ! i - m ! 3 ! i - m ! 4 ! i) 3"

definition point_request :: "params \<Rightarrow> matrix \<Rightarrow> nat \<Rightarrow> request" where
  "point_request P m i =
     build_request P (m ! 1 ! i) (m ! 2 ! i) (m ! 3 ! i) (m ! 4 ! i) (max_concentration m i)"

definition engine_unrecoverable :: "'g env \<Rightarrow> params \<Rightarrow> matrix \<Rightarrow> nat \<Rightarrow> nat \<Rightarrow> bool" where
  "engine_unrecoverable env P m i k =
     (select_system env k (database P) (element_list P) = Unrecoverable \<or>
      (select_system env k (database P) (element_list P) = Calculated () \<and>
       max_concentration m i \<noteq> 0 \<and>
       engine env k (point_request P m i) = Unrecoverable))"

definition engine_other_failure :: "'g env \<Rightarrow> params \<Rightarrow> matrix \<Rightarrow> nat \<Rightarrow> nat \<Rightarrow> bool" where
  "engine_other_failure env P m i k =
     (select_system env k (database P) (element_list P) = OtherFailure \<or>
      (select_system env k (database P) (element_list P) = Calculated () \<and>
       max_concentration m i \<noteq> 0 \<and>
       engine env k (point_request P m i) = OtherFailure))"

definition engine_calculates :: "'g env \<Rightarrow> params \<Rightarrow> matrix \<Rightarrow> nat \<Rightarrow> nat \<Rightarrow> 'g \<Rightarrow> bool" where
  "engine_calculates env P m i k g =
     (select_system env k (database P) (element_list P) = Calculated () \<and>
      max_concentration m i \<noteq> 0 \<and>
      engine env k (point_request P m i) = Calculated g)"

definition point_path :: "'g env \<Rightarrow> params \<Rightarrow> matrix \<Rightarrow> nat \<Rightarrow> string" where
  "point_path env P m i =
     os_path_join (output_dir P)
       (pkl_filename (float_str env) (m ! 0 ! i) (m ! 1 ! i) (m ! 2 ! i) (m ! 3 ! i) (m ! 4 ! i))"

text \<open>
  A stand-in for the formatting of floats in the examples: Python prints the shortest
  decimal that reads back as the same float; here an exact rational is printed exactly, as
  numerator and denominator.
\<close>

fun dec :: "nat \<Rightarrow> string" where
  "dec n = (if n < 10 then [''0123456789'' ! n]
            else dec (n div 10) @ [''0123456789'' ! (n mod 10)])"

definition exact_str :: "rat \<Rightarrow> string" where
  "exact_str x =
     (case quotient_of x of (a, b) \<Rightarrow>
        (if a < 0 then ''-'' else []) @ dec (nat \<bar>a\<bar>) @ ''_'' @ dec (nat b))"

declare dec.simps [simp del]

text \<open>
  The example of the program's last lines, shortened to five grid points and two constant
  concentrations. The example engine fails to calculate the second system and calculates
  every other one; a result is its own serialisation; every path can be written.
\<close>

definition example_env :: "string env" where
  "example_env =
     \<lparr> select_system = (\<lambda>k db els. Calculated ()),
       engine = (\<lambda>k req. if k = 2 then Unrecoverable else Calculated ''diagram''),
       float_str = exact_str, pickle_dumps = Some, pickle_loads = Some,
       can_open_wb = (\<lambda>path. True), can_makedirs = (\<lambda>path. True) \<rparr>"

definition example_params :: params where
  "example_params =
     \<lparr> element_list = [''Al'', ''Cr'', ''Co'', ''Fe'', ''Ni''],
       constant_C_of_others = [1 / 10, 1 / 5], n_iterations = 5,
       indices_of_changing_elements = [0, 1], indices_of_constant_elements = [2, 3, 4],
       database = ''TCHEA6'', temperature_range = (500, 1200), steps_in_temperature = 60,
       output_dir = ''results'' \<rparr>"

definition empty_state :: state where
  "empty_state = \<lparr> files = [], dirs = [], trace = [], counter = 0 \<rparr>"

text \<open>The mesh of the example for the constant concentration \<open>1/10\<close>.\<close>

definition example_mesh :: matrix where
  "example_mesh =
     [[0, 7 / 40, 7 / 20, 21 / 40, 7 / 10],
      [7 / 10, 21 / 40, 7 / 20, 7 / 40, 0],
      [1 / 10, 1 / 10, 1 / 10, 1 / 10, 1 / 10],
      [1 / 10, 1 / 10, 1 / 10, 1 / 10, 1 / 10],
      [1 / 10, 1 / 10, 1 / 10, 1 / 10, 1 / 10]]"

text \<open>An engine that raises another exception at the second system.\<close>

definition failing_env :: "string env" where
  "failing_env =
     example_env\<lparr> engine := (\<lambda>k req. if k = 2 then OtherFailure else Calculated ''diagram'') \<rparr>"

text \<open>An operating system on which no path can be opened for writing.\<close>

definition readonly_env :: "string env" where
  "readonly_env = example_env\<lparr> can_open_wb := (\<lambda>path. False) \<rparr>"

text \<open>
  The path of the result file if, as the specification words it, the mole fractions were
  rounded in the name (to \<open>ndigits\<close> digits).
\<close>

definition rounded_point_path :: "'g env \<Rightarrow> params \<Rightarrow> matrix \<Rightarrow> nat \<Rightarrow> nat \<Rightarrow> string" where
  "rounded_point_path env P m i ndigits =
     os_path_join (output_dir P)
       (pkl_filename (float_str env) (py_round (m ! 0 ! i) ndigits) (py_round (m ! 1 ! i) ndigits)
          (py_round (m ! 2 ! i) ndigits) (py_round (m ! 3 ! i) ndigits)
          (py_round (m ! 4 ! i) ndigits))"

text \<open>A \<^verbatim>\<open>pickle\<close> that cannot serialise any result.\<close>

definition unpicklable_env :: "string env" where
  "unpicklable_env = example_env\<lparr> pickle_dumps := (\<lambda>groups. None) \<rparr>"

section \<open>Properties of the composition mesh\<close>

lemma bind_res_Inr [simp]: "bind_res (Inr x) f = f x"
  by (simp add: bind_res_def)

lemma bind_res_Inl [simp]: "bind_res (Inl e) f = Inl e"
  by (simp add: bind_res_def)

lemma norm_index_eq: "norm_index k idx = (if in_range k idx then Some (row_of k idx) else None)"
  by (auto simp: norm_index_def in_range_def row_of_def)

lemma row_of_less: "in_range k idx \<Longrightarrow> row_of k idx < k"
  by (auto simp: in_range_def row_of_def)

lemma wf_np_zeros: "wf_matrix k n (np_zeros k n)"
  by (simp add: wf_matrix_def np_zeros_def)

lemma np_zeros_entry: "r < k \<Longrightarrow> i < n \<Longrightarrow> np_zeros k n ! r ! i = 0"
  by (simp add: np_zeros_def)

lemma setitem_ok:
  assumes "wf_matrix k n m" "in_range k idx" "i < n"
  shows "\<exists>m'. setitem m idx i v = Inr m' \<and> wf_matrix k n m' \<and>
           (\<forall>r<k. \<forall>j<n. m' ! r ! j = (if r = row_of k idx \<and> j = i then v else m ! r ! j))"
proof -
  let ?r = "row_of k idx"
  have r: "?r < k" using assms(2) by (rule row_of_less)
  have len: "length m = k" and rows: "\<And>r. r < k \<Longrightarrow> length (m ! r) = n"
    using assms(1) by (simp_all add: wf_matrix_def)
  have eq: "setitem m idx i v = Inr (m[?r := (m ! ?r)[i := v]])"
    using assms(2,3) r rows[OF r] by (simp add: setitem_def norm_index_eq len)
  have wf: "wf_matrix k n (m[?r := (m ! ?r)[i := v]])"
    using len rows r by (simp add: wf_matrix_def nth_list_update)
  have ent: "\<forall>r<k. \<forall>j<n. (m[?r := (m ! ?r)[i := v]]) ! r ! j = (if r = ?r \<and> j = i then v else m ! r ! j)"
    using len rows r by (auto simp: nth_list_update)
  show ?thesis using eq wf ent by blast
qed

lemma set_constant_elements_ok:
  assumes "wf_matrix k n m" "\<forall>idx\<in>set idxs. in_range k idx" "i < n"
  shows "\<exists>m'. set_constant_elements m i idxs c = Inr m' \<and> wf_matrix k n m' \<and>
           (\<forall>r<k. \<forall>j<n. m' ! r ! j = (if r \<in> row_of k ` set idxs \<and> j = i then c else m ! r ! j))"
  using assms
proof (induction idxs arbitrary: m)
  case Nil
  then show ?case by simp
next
  case (Cons idx idxs)
  from Cons.prems have ir: "in_range k idx" by simp
  from setitem_ok[OF Cons.prems(1) ir Cons.prems(3), of c]
  obtain m1 where m1: "setitem m idx i c = Inr m1" "wf_matrix k n m1"
    and e1: "\<forall>r<k. \<forall>j<n. m1 ! r ! j = (if r = row_of k idx \<and> j = i then c else m ! r ! j)"
    by blast
  from Cons.prems have rest: "\<forall>idx\<in>set idxs. in_range k idx" by simp
  from Cons.IH[OF m1(2) rest Cons.prems(3)]
  obtain m2 where m2: "set_constant_elements m1 i idxs c = Inr m2" "wf_matrix k n m2"
    and e2: "\<forall>r<k. \<forall>j<n. m2 ! r ! j = (if r \<in> row_of k ` set idxs \<and> j = i then c else m1 ! r ! j)"
    by blast
  have "set_constant_elements m i (idx # idxs) c = Inr m2"
    using m1(1) m2(1) by simp
  moreover have "\<forall>r<k. \<forall>j<n. m2 ! r ! j = (if r \<in> row_of k ` set (idx # idxs) \<and> j = i then c else m ! r ! j)"
    using e1 e2 by auto
  ultimately show ?case using m2(2) by blast
qed

lemma mesh_column_ok:
  assumes wf: "wf_matrix k n m" and cr: "\<forall>idx\<in>set const. in_range k idx"
    and l: "2 \<le> length chg" and a: "in_range k (chg ! 0)" and b: "in_range k (chg ! 1)"
    and i: "i < n" and mf: "length mf = n"
  shows "\<exists>m'. mesh_column m mf i chg const c = Inr m' \<and> wf_matrix k n m' \<and>
           (\<forall>r<k. \<forall>j<n. m' ! r ! j =
              (if j = i then
                 (if r = row_of k (chg ! 1) then 1 - mf ! i - 3 * c
                  else if r = row_of k (chg ! 0) then mf ! i
                  else if r \<in> row_of k ` set const then c else m ! r ! j)
               else m ! r ! j))"
proof -
  from set_constant_elements_ok[OF wf cr i, of c]
  obtain m1 where m1: "set_constant_elements m i const c = Inr m1" "wf_matrix k n m1"
    and e1: "\<forall>r<k. \<forall>j<n. m1 ! r ! j = (if r \<in> row_of k ` set const \<and> j = i then c else m ! r ! j)"
    by blast
  from setitem_ok[OF m1(2) a i, of "mf ! i"]
  obtain m2 where m2: "setitem m1 (chg ! 0) i (mf ! i) = Inr m2" "wf_matrix k n m2"
    and e2: "\<forall>r<k. \<forall>j<n. m2 ! r ! j = (if r = row_of k (chg ! 0) \<and> j = i then mf ! i else m1 ! r ! j)"
    by blast
  from setitem_ok[OF m2(2) b i, of "1 - mf ! i - 3 * c"]
  obtain m3 where m3: "setitem m2 (chg ! 1) i (1 - mf ! i - 3 * c) = Inr m3" "wf_matrix k n m3"
    and e3: "\<forall>r<k. \<forall>j<n. m3 ! r ! j = (if r = row_of k (chg ! 1) \<and> j = i then 1 - mf ! i - 3 * c else m2 ! r ! j)"
    by blast
  have l0: "0 < length chg" and l1: "1 < length chg" using l by linarith+
  have "mesh_column m mf i chg const c = Inr m3"
    using m1(1) m2(1) m3(1) l0 l1 i mf by (simp add: mesh_column_def list_getitem_def)
  moreover have "\<forall>r<k. \<forall>j<n. m3 ! r ! j =
              (if j = i then
                 (if r = row_of k (chg ! 1) then 1 - mf ! i - 3 * c
                  else if r = row_of k (chg ! 0) then mf ! i
                  else if r \<in> row_of k ` set const then c else m ! r ! j)
               else m ! r ! j)"
    using e1 e2 e3 by simp
  ultimately show ?thesis using m3(2) by blast
qed

lemma mesh_loop_ok:
  assumes wf: "wf_matrix k n m" and cr: "\<forall>idx\<in>set const. in_range k idx"
    and l: "2 \<le> length chg" and a: "in_range k (chg ! 0)" and b: "in_range k (chg ! 1)"
    and i: "\<forall>i\<in>set cols. i < n" and mf: "length mf = n"
  shows "\<exists>m'. mesh_loop m mf cols chg const c = Inr m' \<and> wf_matrix k n m' \<and>
           (\<forall>r<k. \<forall>j<n. m' ! r ! j =
              (if j \<in> set cols then
                 (if r = row_of k (chg ! 1) then 1 - mf ! j - 3 * c
                  else if r = row_of k (chg ! 0) then mf ! j
                  else if r \<in> row_of k ` set const then c else m ! r ! j)
               else m ! r ! j))"
  using wf i
proof (induction cols arbitrary: m)
  case Nil
  then show ?case by simp
next
  case (Cons i cols)
  from Cons.prems have i: "i < n" by simp
  from mesh_column_ok[OF Cons.prems(1) cr l a b i mf, of c]
  obtain m1 where m1: "mesh_column m mf i chg const c = Inr m1" "wf_matrix k n m1"
    and e1: "\<forall>r<k. \<forall>j<n. m1 ! r ! j =
              (if j = i then
                 (if r = row_of k (chg ! 1) then 1 - mf ! i - 3 * c
                  else if r = row_of k (chg ! 0) then mf ! i
                  else if r \<in> row_of k ` set const then c else m ! r ! j)
               else m ! r ! j)"
    by blast
  from Cons.prems have rest: "\<forall>i\<in>set cols. i < n" by simp
  from Cons.IH[OF m1(2) rest]
  obtain m2 where m2: "mesh_loop m1 mf cols chg const c = Inr m2" "wf_matrix k n m2"
    and e2: "\<forall>r<k. \<forall>j<n. m2 ! r ! j =
              (if j \<in> set cols then
                 (if r = row_of k (chg ! 1) then 1 - mf ! j - 3 * c
                  else if r = row_of k (chg ! 0) then mf ! j
                  else if r \<in> row_of k ` set const then c else m1 ! r ! j)
               else m1 ! r ! j)"
    by blast
  have "mesh_loop m mf (i # cols) chg const c = Inr m2"
    using m1(1) m2(1) by simp
  moreover have "\<forall>r<k. \<forall>j<n. m2 ! r ! j =
              (if j \<in> set (i # cols) then
                 (if r = row_of k (chg ! 1) then 1 - mf ! j - 3 * c
                  else if r = row_of k (chg ! 0) then mf ! j
                  else if r \<in> row_of k ` set const then c else m ! r ! j)
               else m ! r ! j)"
    using e1 e2 by simp
  ultimately show ?case using m2(2) by blast
qed

lemma length_np_linspace: "length (np_linspace a b n) = n"
  by (simp add: np_linspace_def)

lemma np_linspace_nth: "i < n \<Longrightarrow> 1 < n \<Longrightarrow> np_linspace a b n ! i = a + of_nat i * ((b - a) / of_nat (n - 1))"
  by (simp add: np_linspace_def)

lemma np_linspace_first: "0 < n \<Longrightarrow> np_linspace a b n ! 0 = a"
  by (simp add: np_linspace_def)

lemma np_linspace_last: "1 < n \<Longrightarrow> np_linspace a b n ! (n - 1) = b"
  by (simp add: np_linspace_def)

lemma mesh_concentrations_entries:
  assumes cr: "\<forall>idx\<in>set const. in_range (length els) idx"
    and l: "2 \<le> length chg" and a: "in_range (length els) (chg ! 0)"
    and b: "in_range (length els) (chg ! 1)"
  shows "\<exists>m. mesh_concentrations els n chg const c = Inr m \<and> wf_matrix (length els) n m \<and>
           (\<forall>r<length els. \<forall>j<n. m ! r ! j =
              (if r = row_of (length els) (chg ! 1) then 1 - np_linspace 0 (1 - 3 * c) n ! j - 3 * c
               else if r = row_of (length els) (chg ! 0) then np_linspace 0 (1 - 3 * c) n ! j
               else if r \<in> row_of (length els) ` set const then c else 0))"
proof -
  have cols: "\<forall>i\<in>set [0..<n]. i < n" by simp
  from mesh_loop_ok[OF wf_np_zeros cr l a b cols length_np_linspace, where c = c and a1 = 0 and b1 = "1 - 3 * c"]
  obtain m where m: "mesh_loop (np_zeros (length els) n) (np_linspace 0 (1 - 3 * c) n) [0..<n] chg const c = Inr m"
      "wf_matrix (length els) n m"
    and e: "\<forall>r<length els. \<forall>j<n. m ! r ! j =
              (if j \<in> set [0..<n] then
                 (if r = row_of (length els) (chg ! 1) then 1 - np_linspace 0 (1 - 3 * c) n ! j - 3 * c
                  else if r = row_of (length els) (chg ! 0) then np_linspace 0 (1 - 3 * c) n ! j
                  else if r \<in> row_of (length els) ` set const then c else np_zeros (length els) n ! r ! j)
               else np_zeros (length els) n ! r ! j)"
    by blast
  have "mesh_concentrations els n chg const c = Inr m"
    using m(1) by (simp add: mesh_concentrations_def)
  moreover have "\<forall>r<length els. \<forall>j<n. m ! r ! j =
              (if r = row_of (length els) (chg ! 1) then 1 - np_linspace 0 (1 - 3 * c) n ! j - 3 * c
               else if r = row_of (length els) (chg ! 0) then np_linspace 0 (1 - 3 * c) n ! j
               else if r \<in> row_of (length els) ` set const then c else 0)"
    using e by (simp add: np_zeros_entry)
  ultimately show ?thesis using m(2) by blast
qed


lemma column_sum_nth: "column_sum m i = (\<Sum>r = 0..<length m. m ! r ! i)"
proof -
  have "column_sum m i = (\<Sum>r = 0..<length (map (\<lambda>row. row ! i) m). map (\<lambda>row. row ! i) m ! r)"
    unfolding column_sum_def by (rule sum_list_sum_nth)
  also have "\<dots> = (\<Sum>r = 0..<length m. m ! r ! i)"
    by (rule sum.cong) simp_all
  finally show ?thesis .
qed

lemma sum_cells:
  fixes x y c :: rat and a b k :: nat
  assumes a: "a < k" and b: "b < k" and ab: "a \<noteq> b"
    and C: "C \<subseteq> {0..<k}" and aC: "a \<notin> C" and bC: "b \<notin> C"
  shows "(\<Sum>r = 0..<k. if r = b then y else if r = a then x else if r \<in> C then c else 0)
           = y + x + of_nat (card C) * c"
proof -
  let ?g = "\<lambda>r. if r = b then y else if r = a then x else if r \<in> C then c else 0"
  have fin: "finite {0..<k}" by simp
  have "sum ?g {0..<k} = ?g b + sum ?g ({0..<k} - {b})"
    by (rule sum.remove) (use b in simp_all)
  also have "sum ?g ({0..<k} - {b}) = ?g a + sum ?g ({0..<k} - {b} - {a})"
    by (rule sum.remove) (use a ab in simp_all)
  also have "sum ?g ({0..<k} - {b} - {a}) = sum (\<lambda>r. if r \<in> C then c else 0) ({0..<k} - {b} - {a})"
    by (rule sum.cong) auto
  also have "\<dots> = sum (\<lambda>r. c) (({0..<k} - {b} - {a}) \<inter> C)"
    by (rule sum.inter_restrict[symmetric]) simp
  also have "({0..<k} - {b} - {a}) \<inter> C = C"
    using C aC bC by auto
  finally show ?thesis using ab by simp
qed


lemma mesh_column_sum:
  assumes cr: "\<forall>idx\<in>set const. in_range (length els) idx"
    and l: "2 \<le> length chg" and a: "in_range (length els) (chg ! 0)"
    and b: "in_range (length els) (chg ! 1)"
    and ab: "row_of (length els) (chg ! 0) \<noteq> row_of (length els) (chg ! 1)"
    and dist: "distinct (map (row_of (length els)) const)"
    and aC: "row_of (length els) (chg ! 0) \<notin> row_of (length els) ` set const"
    and bC: "row_of (length els) (chg ! 1) \<notin> row_of (length els) ` set const"
  shows "\<exists>m. mesh_concentrations els n chg const c = Inr m \<and> wf_matrix (length els) n m \<and>
           (\<forall>i<n. column_sum m i = 1 + (of_nat (length const) - 3) * c)"
proof -
  let ?k = "length els"
  let ?a = "row_of ?k (chg ! 0)" and ?b = "row_of ?k (chg ! 1)"
  let ?C = "row_of ?k ` set const"
  let ?mf = "np_linspace 0 (1 - 3 * c) n"
  from mesh_concentrations_entries[OF cr l a b, of n c]
  obtain m where m: "mesh_concentrations els n chg const c = Inr m" "wf_matrix ?k n m"
    and e: "\<forall>r<?k. \<forall>j<n. m ! r ! j =
              (if r = ?b then 1 - ?mf ! j - 3 * c
               else if r = ?a then ?mf ! j
               else if r \<in> ?C then c else 0)"
    by blast
  have len: "length m = ?k" using m(2) by (simp add: wf_matrix_def)
  have ak: "?a < ?k" using a by (rule row_of_less)
  have bk: "?b < ?k" using b by (rule row_of_less)
  have Ck: "?C \<subseteq> {0..<?k}" using cr by (auto simp: row_of_less)
  have card: "card ?C = length const"
    using distinct_card[OF dist] by simp
  have "column_sum m i = 1 + (of_nat (length const) - 3) * c" if i: "i < n" for i
  proof -
    have "column_sum m i = (\<Sum>r = 0..<?k. m ! r ! i)"
      by (simp add: column_sum_nth len)
    also have "\<dots> = (\<Sum>r = 0..<?k. if r = ?b then 1 - ?mf ! i - 3 * c
               else if r = ?a then ?mf ! i
               else if r \<in> ?C then c else 0)"
      by (rule sum.cong) (use e i in simp_all)
    also have "\<dots> = (1 - ?mf ! i - 3 * c) + ?mf ! i + of_nat (card ?C) * c"
      using ak bk ab Ck aC bC by (rule sum_cells)
    also have "\<dots> = 1 + (of_nat (length const) - 3) * c"
      by (simp add: card algebra_simps)
    finally show ?thesis .
  qed
  then show ?thesis using m by blast
qed


section \<open>Claims about the composition mesh\<close>

text \<open>
  C1 (as amended). Let the two changing indices and the constant indices be accepted by
  numpy for the element list, denote pairwise different rows, and let there be exactly
  three constant indices. Then \<open>mesh_concentrations\<close> returns a matrix, and each of its
  \<open>n\<close> columns sums to 1 over exact arithmetic.
\<close>

theorem C1_columns_sum_to_one:
  assumes "\<forall>idx\<in>set const. in_range (length els) idx"
    and "2 \<le> length chg" and "in_range (length els) (chg ! 0)"
    and "in_range (length els) (chg ! 1)"
    and "row_of (length els) (chg ! 0) \<noteq> row_of (length els) (chg ! 1)"
    and "distinct (map (row_of (length els)) const)"
    and "row_of (length els) (chg ! 0) \<notin> row_of (length els) ` set const"
    and "row_of (length els) (chg ! 1) \<notin> row_of (length els) ` set const"
    and three: "length const = 3"
  shows "\<exists>m. mesh_concentrations els n chg const c = Inr m \<and>
           (\<forall>i<n. column_sum m i = 1)"
proof -
  from mesh_column_sum[OF assms(1-8), of n c]
  obtain m where "mesh_concentrations els n chg const c = Inr m"
    and "\<forall>i<n. column_sum m i = 1 + (of_nat (length const) - 3) * c"
    by blast
  then show ?thesis using three by simp
qed

text \<open>
  C1 at the example system: three grid points, \<open>c = 1/10\<close>, the middle column sums to 1.
\<close>

theorem C1_witness:
  "mesh_concentrations [''Al'', ''Cr'', ''Co'', ''Fe'', ''Ni''] 3 [0, 1] [2, 3, 4] (1 / 10)
     = Inr [[0, 7 / 20, 7 / 10], [7 / 10, 7 / 20, 0], [1 / 10, 1 / 10, 1 / 10],
            [1 / 10, 1 / 10, 1 / 10], [1 / 10, 1 / 10, 1 / 10]]
   \<and> column_sum [[0, 7 / 20, 7 / 10], [7 / 10, 7 / 20, 0], [1 / 10, 1 / 10, 1 / 10],
            [1 / 10, 1 / 10, 1 / 10], [1 / 10, 1 / 10, 1 / 10]] 1 = 1"
proof -
  have ev: "mesh_concentrations [''Al'', ''Cr'', ''Co'', ''Fe'', ''Ni''] 3 [0, 1] [2, 3, 4] (1 / 10)
     = Inr [[0, 7 / 20, 7 / 10], [7 / 10, 7 / 20, 0], [1 / 10, 1 / 10, 1 / 10],
            [1 / 10, 1 / 10, 1 / 10], [1 / 10, 1 / 10, 1 / 10]]"
    by code_simp
  have "\<exists>m. mesh_concentrations [''Al'', ''Cr'', ''Co'', ''Fe'', ''Ni''] 3 [0, 1] [2, 3, 4] (1 / 10) = Inr m \<and>
           (\<forall>i<3. column_sum m i = 1)"
    by (rule C1_columns_sum_to_one) (simp_all add: in_range_def row_of_def)
  with ev show ?thesis by simp
qed

text \<open>
  C1 as stated fails: with the disjoint, in-range index lists \<open>[0, 1]\<close> and \<open>[2, 3]\<close> (two
  constant elements only) and \<open>c = 1/10\<close>, the first column sums to \<open>9/10\<close>.
\<close>

theorem C1_counterexample:
  "mesh_concentrations [''Al'', ''Cr'', ''Co'', ''Fe'', ''Ni''] 2 [0, 1] [2, 3] (1 / 10)
     = Inr [[0, 7 / 10], [7 / 10, 0], [1 / 10, 1 / 10], [1 / 10, 1 / 10], [0, 0]]
   \<and> column_sum [[0, 7 / 10], [7 / 10, 0], [1 / 10, 1 / 10], [1 / 10, 1 / 10], [0, 0]] 0 = 9 / 10"
  by code_simp

text \<open>
  C2. When no index is rejected and the two changing indices denote different rows,
  \<open>mesh_concentrations\<close> returns a matrix with one row per element and \<open>n\<close> columns; the
  row of the first changing element is the \<open>n\<close>-point linear sweep from 0 to \<open>1 - 3c\<close>
  (entry \<open>i\<close> is \<open>i (1 - 3c) / (n - 1)\<close> when \<open>n > 1\<close>), and the row of the second changing
  element is, column by column, 1 minus the first changing element's value minus \<open>3c\<close>.
\<close>

theorem C2_rows_of_changing_elements:
  assumes cr: "\<forall>idx\<in>set const. in_range (length els) idx"
    and l: "2 \<le> length chg" and a: "in_range (length els) (chg ! 0)"
    and b: "in_range (length els) (chg ! 1)"
    and ab: "row_of (length els) (chg ! 0) \<noteq> row_of (length els) (chg ! 1)"
  shows "\<exists>m. mesh_concentrations els n chg const c = Inr m \<and>
           length m = length els \<and> (\<forall>r<length els. length (m ! r) = n) \<and>
           m ! row_of (length els) (chg ! 0) = np_linspace 0 (1 - 3 * c) n \<and>
           (1 < n \<longrightarrow> (\<forall>i<n. m ! row_of (length els) (chg ! 0) ! i
                                 = of_nat i * (1 - 3 * c) / of_nat (n - 1))) \<and>
           (\<forall>i<n. m ! row_of (length els) (chg ! 1) ! i
                     = 1 - m ! row_of (length els) (chg ! 0) ! i - 3 * c)"
proof -
  let ?k = "length els"
  let ?a = "row_of ?k (chg ! 0)" and ?b = "row_of ?k (chg ! 1)"
  let ?mf = "np_linspace 0 (1 - 3 * c) n"
  from mesh_concentrations_entries[OF cr l a b, of n c]
  obtain m where m: "mesh_concentrations els n chg const c = Inr m" "wf_matrix ?k n m"
    and e: "\<forall>r<?k. \<forall>j<n. m ! r ! j =
              (if r = ?b then 1 - ?mf ! j - 3 * c
               else if r = ?a then ?mf ! j
               else if r \<in> row_of ?k ` set const then c else 0)"
    by blast
  have len: "length m = ?k" and rows: "\<forall>r<?k. length (m ! r) = n"
    using m(2) by (simp_all add: wf_matrix_def)
  have ak: "?a < ?k" using a by (rule row_of_less)
  have bk: "?b < ?k" using b by (rule row_of_less)
  have ea: "m ! ?a ! i = ?mf ! i" if "i < n" for i
    using e ak ab that by simp
  have eb: "m ! ?b ! i = 1 - ?mf ! i - 3 * c" if "i < n" for i
    using e bk that by simp
  have row_a: "m ! ?a = ?mf"
    by (rule nth_equalityI) (use rows ak ea in \<open>simp_all add: length_np_linspace\<close>)
  have sweep: "1 < n \<longrightarrow> (\<forall>i<n. m ! ?a ! i = of_nat i * (1 - 3 * c) / of_nat (n - 1))"
    by (simp add: ea np_linspace_nth)
  have second: "\<forall>i<n. m ! ?b ! i = 1 - m ! ?a ! i - 3 * c"
    using ea eb by simp
  show ?thesis using m(1) len rows row_a sweep second by blast
qed

text \<open>C2 at the example system with three grid points.\<close>

theorem C2_witness:
  "mesh_concentrations [''Al'', ''Cr'', ''Co'', ''Fe'', ''Ni''] 3 [0, 1] [2, 3, 4] (1 / 10)
     = Inr [[0, 7 / 20, 7 / 10], [7 / 10, 7 / 20, 0], [1 / 10, 1 / 10, 1 / 10],
            [1 / 10, 1 / 10, 1 / 10], [1 / 10, 1 / 10, 1 / 10]]
   \<and> [0, 7 / 20, 7 / 10] = np_linspace 0 (1 - 3 * (1 / 10)) 3"
proof -
  have ev: "mesh_concentrations [''Al'', ''Cr'', ''Co'', ''Fe'', ''Ni''] 3 [0, 1] [2, 3, 4] (1 / 10)
     = Inr [[0, 7 / 20, 7 / 10], [7 / 10, 7 / 20, 0], [1 / 10, 1 / 10, 1 / 10],
            [1 / 10, 1 / 10, 1 / 10], [1 / 10, 1 / 10, 1 / 10]]"
    by code_simp
  have "\<exists>m. mesh_concentrations [''Al'', ''Cr'', ''Co'', ''Fe'', ''Ni''] 3 [0, 1] [2, 3, 4] (1 / 10) = Inr m \<and>
           length m = length [''Al'', ''Cr'', ''Co'', ''Fe'', ''Ni''] \<and>
           (\<forall>r<length [''Al'', ''Cr'', ''Co'', ''Fe'', ''Ni'']. length (m ! r) = 3) \<and>
           m ! row_of (length [''Al'', ''Cr'', ''Co'', ''Fe'', ''Ni'']) ([0, 1] ! 0)
             = np_linspace 0 (1 - 3 * (1 / 10)) 3 \<and>
           (1 < (3::nat) \<longrightarrow> (\<forall>i<3. m ! row_of (length [''Al'', ''Cr'', ''Co'', ''Fe'', ''Ni'']) ([0, 1] ! 0) ! i
                                 = of_nat i * (1 - 3 * (1 / 10)) / of_nat (3 - 1))) \<and>
           (\<forall>i<3. m ! row_of (length [''Al'', ''Cr'', ''Co'', ''Fe'', ''Ni'']) ([0, 1] ! 1) ! i
                     = 1 - m ! row_of (length [''Al'', ''Cr'', ''Co'', ''Fe'', ''Ni'']) ([0, 1] ! 0) ! i - 3 * (1 / 10))"
    by (rule C2_rows_of_changing_elements) (simp_all add: in_range_def row_of_def)
  with ev show ?thesis by (simp add: row_of_def)
qed

text \<open>
  C6. For \<open>c = 1/10\<close>, \<open>n = 15\<close>, changing indices \<open>[0, 1]\<close> and constant indices
  \<open>[2, 3, 4]\<close> (on any list of at least five elements), the first column holds 0 and
  \<open>1 - 3/10 = 7/10\<close> for the two changing elements, and the last column holds \<open>7/10\<close> and 0.
\<close>

theorem C6_endpoint_columns:
  assumes "5 \<le> length els"
  shows "\<exists>m. mesh_concentrations els 15 [0, 1] [2, 3, 4] (1 / 10) = Inr m \<and>
           m ! 0 ! 0 = 0 \<and> m ! 1 ! 0 = 1 - 3 / 10 \<and> m ! 1 ! 0 = 7 / 10 \<and>
           m ! 0 ! 14 = 1 - 3 / 10 \<and> m ! 0 ! 14 = 7 / 10 \<and> m ! 1 ! 14 = 0"
proof -
  let ?k = "length els"
  let ?mf = "np_linspace 0 (1 - 3 * (1 / 10)) 15"
  have cr: "\<forall>idx\<in>set [2, 3, 4]. in_range ?k idx"
    using assms by (simp add: in_range_def)
  have l: "2 \<le> length [0, 1 :: int]" by simp
  have a: "in_range ?k ([0, 1] ! 0)" and b: "in_range ?k ([0, 1] ! 1)"
    unfolding in_range_def using assms by auto
  from mesh_concentrations_entries[OF cr l a b, of 15 "1 / 10"]
  obtain m where m: "mesh_concentrations els 15 [0, 1] [2, 3, 4] (1 / 10) = Inr m"
    and e: "\<forall>r<?k. \<forall>j<15. m ! r ! j =
              (if r = row_of ?k ([0, 1] ! 1) then 1 - ?mf ! j - 3 * (1 / 10)
               else if r = row_of ?k ([0, 1] ! 0) then ?mf ! j
               else if r \<in> row_of ?k ` set [2, 3, 4] then 1 / 10 else 0)"
    by blast
  have mf0: "?mf ! 0 = 0" by (simp add: np_linspace_first)
  have mf14: "?mf ! 14 = 7 / 10"
    using np_linspace_last[of 15 0 "1 - 3 * (1 / 10)"] by simp
  have k0: "0 < ?k" and k1: "1 < ?k" using assms by linarith+
  have "m ! 0 ! 0 = 0" using e k0 mf0 by (simp add: row_of_def)
  moreover have "m ! 1 ! 0 = 7 / 10" using e k1 mf0 by (simp add: row_of_def)
  moreover have "m ! 0 ! 14 = 7 / 10" using e k0 mf14 by (simp add: row_of_def)
  moreover have "m ! 1 ! 14 = 0" using e k1 mf14 by (simp add: row_of_def)
  ultimately show ?thesis using m by simp
qed

text \<open>C6 at the five-element example system.\<close>

theorem C6_witness:
  "5 \<le> length [''Al'', ''Cr'', ''Co'', ''Fe'', ''Ni''] \<and>
   (\<exists>m. mesh_concentrations [''Al'', ''Cr'', ''Co'', ''Fe'', ''Ni''] 15 [0, 1] [2, 3, 4] (1 / 10) = Inr m \<and>
           m ! 0 ! 0 = 0 \<and> m ! 1 ! 0 = 7 / 10 \<and> m ! 0 ! 14 = 7 / 10 \<and> m ! 1 ! 14 = 0)"
  using C6_endpoint_columns[of "[''Al'', ''Cr'', ''Co'', ''Fe'', ''Ni'']"] by simp

text \<open>
  C7. No bounds are validated: whenever \<open>c > 1/3\<close> and there is at least one grid point,
  \<open>mesh_concentrations\<close> still returns a matrix (it rejects nothing), and the entry of the
  second changing element in the first column is the unclamped negative number \<open>1 - 3c\<close>.
\<close>

theorem C7_negative_fractions_returned:
  assumes cr: "\<forall>idx\<in>set const. in_range (length els) idx"
    and l: "2 \<le> length chg" and a: "in_range (length els) (chg ! 0)"
    and b: "in_range (length els) (chg ! 1)"
    and big: "1 / 3 < c" and n: "1 \<le> n"
  shows "\<exists>m. mesh_concentrations els n chg const c = Inr m \<and>
           m ! row_of (length els) (chg ! 1) ! 0 = 1 - 3 * c \<and>
           m ! row_of (length els) (chg ! 1) ! 0 < 0"
proof -
  let ?k = "length els"
  let ?b = "row_of ?k (chg ! 1)"
  let ?mf = "np_linspace 0 (1 - 3 * c) n"
  from mesh_concentrations_entries[OF cr l a b, of n c]
  obtain m where m: "mesh_concentrations els n chg const c = Inr m"
    and e: "\<forall>r<?k. \<forall>j<n. m ! r ! j =
              (if r = ?b then 1 - ?mf ! j - 3 * c
               else if r = row_of ?k (chg ! 0) then ?mf ! j
               else if r \<in> row_of ?k ` set const then c else 0)"
    by blast
  have bk: "?b < ?k" using b by (rule row_of_less)
  have n0: "0 < n" using n by simp
  have "m ! ?b ! 0 = 1 - ?mf ! 0 - 3 * c" using e bk n0 by simp
  then have v: "m ! ?b ! 0 = 1 - 3 * c" using n0 by (simp add: np_linspace_first)
  have "1 - 3 * c < 0" using big by simp
  with v m show ?thesis by simp
qed

text \<open>C7 at \<open>c = 1/2\<close> with two grid points.\<close>

theorem C7_witness:
  "mesh_concentrations [''Al'', ''Cr'', ''Co'', ''Fe'', ''Ni''] 2 [0, 1] [2, 3, 4] (1 / 2)
     = Inr [[0, - 1 / 2], [- 1 / 2, 0], [1 / 2, 1 / 2], [1 / 2, 1 / 2], [1 / 2, 1 / 2]]
   \<and> (1::rat) / 3 < 1 / 2"
proof -
  have ev: "mesh_concentrations [''Al'', ''Cr'', ''Co'', ''Fe'', ''Ni''] 2 [0, 1] [2, 3, 4] (1 / 2)
     = Inr [[0, - 1 / 2], [- 1 / 2, 0], [1 / 2, 1 / 2], [1 / 2, 1 / 2], [1 / 2, 1 / 2]]"
    by code_simp
  have "\<exists>m. mesh_concentrations [''Al'', ''Cr'', ''Co'', ''Fe'', ''Ni''] 2 [0, 1] [2, 3, 4] (1 / 2) = Inr m \<and>
           m ! row_of (length [''Al'', ''Cr'', ''Co'', ''Fe'', ''Ni'']) ([0, 1] ! 1) ! 0 = 1 - 3 * (1 / 2) \<and>
           m ! row_of (length [''Al'', ''Cr'', ''Co'', ''Fe'', ''Ni'']) ([0, 1] ! 1) ! 0 < 0"
    by (rule C7_negative_fractions_returned) (simp_all add: in_range_def)
  with ev show ?thesis by simp
qed

text \<open>
  C10 (as amended). The allocation for the constant elements is the fixed amount \<open>3c\<close>,
  whatever the number of constant indices: with accepted indices that denote pairwise
  different rows, each column sums to \<open>1 + (len(indices_of_constant_elements) - 3) c\<close>, so
  a column sums to 1 exactly when three constant indices are given or \<open>c = 0\<close>; and every
  row that is neither one of the two changing rows nor a constant row stays 0 in every
  column.
\<close>

theorem C10_constant_allocation:
  assumes cr: "\<forall>idx\<in>set const. in_range (length els) idx"
    and l: "2 \<le> length chg" and a: "in_range (length els) (chg ! 0)"
    and b: "in_range (length els) (chg ! 1)"
    and ab: "row_of (length els) (chg ! 0) \<noteq> row_of (length els) (chg ! 1)"
    and dist: "distinct (map (row_of (length els)) const)"
    and aC: "row_of (length els) (chg ! 0) \<notin> row_of (length els) ` set const"
    and bC: "row_of (length els) (chg ! 1) \<notin> row_of (length els) ` set const"
  shows "\<exists>m. mesh_concentrations els n chg const c = Inr m \<and>
           (\<forall>i<n. column_sum m i = 1 + (of_nat (length const) - 3) * c) \<and>
           (\<forall>i<n. column_sum m i = 1 \<longleftrightarrow> length const = 3 \<or> c = 0) \<and>
           (\<forall>r<length els.
              r \<noteq> row_of (length els) (chg ! 0) \<and> r \<noteq> row_of (length els) (chg ! 1) \<and>
              r \<notin> row_of (length els) ` set const \<longrightarrow> (\<forall>i<n. m ! r ! i = 0))"
proof -
  let ?k = "length els"
  from mesh_column_sum[OF cr l a b ab dist aC bC, of n c]
  obtain m where m: "mesh_concentrations els n chg const c = Inr m"
    and s: "\<forall>i<n. column_sum m i = 1 + (of_nat (length const) - 3) * c"
    by blast
  from mesh_concentrations_entries[OF cr l a b, of n c] m
  have e: "\<forall>r<?k. \<forall>j<n. m ! r ! j =
              (if r = row_of ?k (chg ! 1) then 1 - np_linspace 0 (1 - 3 * c) n ! j - 3 * c
               else if r = row_of ?k (chg ! 0) then np_linspace 0 (1 - 3 * c) n ! j
               else if r \<in> row_of ?k ` set const then c else 0)"
    by auto
  have iff: "\<forall>i<n. column_sum m i = 1 \<longleftrightarrow> length const = 3 \<or> c = 0"
  proof (intro allI impI)
    fix i assume "i < n"
    then have "column_sum m i = 1 + (of_nat (length const) - 3) * c" using s by simp
    moreover have "(rat_of_nat (length const) - 3 = 0) = (length const = 3)"
      using of_nat_eq_iff[of "length const" 3, where ?'a = rat] by simp
    ultimately show "column_sum m i = 1 \<longleftrightarrow> length const = 3 \<or> c = 0"
      by simp
  qed
  have zero: "\<forall>r<?k. r \<noteq> row_of ?k (chg ! 0) \<and> r \<noteq> row_of ?k (chg ! 1) \<and>
              r \<notin> row_of ?k ` set const \<longrightarrow> (\<forall>i<n. m ! r ! i = 0)"
    using e by simp
  show ?thesis using m s iff zero by blast
qed

text \<open>C10 at the example system with two constant elements only: the columns sum to \<open>9/10\<close>.\<close>

theorem C10_witness:
  "mesh_concentrations [''Al'', ''Cr'', ''Co'', ''Fe'', ''Ni''] 2 [0, 1] [2, 3] (1 / 10)
     = Inr [[0, 7 / 10], [7 / 10, 0], [1 / 10, 1 / 10], [1 / 10, 1 / 10], [0, 0]]
   \<and> column_sum [[0, 7 / 10], [7 / 10, 0], [1 / 10, 1 / 10], [1 / 10, 1 / 10], [0, 0]] 1
       = 1 + (of_nat (length [2, 3 :: int]) - 3) * (1 / 10)
   \<and> [[0, 7 / 10], [7 / 10, 0], [1 / 10, 1 / 10], [1 / 10, 1 / 10], [0, 0 :: rat]] ! 4 ! 1 = 0"
proof -
  have ev: "mesh_concentrations [''Al'', ''Cr'', ''Co'', ''Fe'', ''Ni''] 2 [0, 1] [2, 3] (1 / 10)
     = Inr [[0, 7 / 10], [7 / 10, 0], [1 / 10, 1 / 10], [1 / 10, 1 / 10], [0, 0]]"
    by code_simp
  have "\<exists>m. mesh_concentrations [''Al'', ''Cr'', ''Co'', ''Fe'', ''Ni''] 2 [0, 1] [2, 3] (1 / 10) = Inr m \<and>
           (\<forall>i<2. column_sum m i = 1 + (of_nat (length [2, 3 :: int]) - 3) * (1 / 10)) \<and>
           (\<forall>i<2. column_sum m i = 1 \<longleftrightarrow> length [2, 3 :: int] = 3 \<or> (1 / 10 :: rat) = 0) \<and>
           (\<forall>r<length [''Al'', ''Cr'', ''Co'', ''Fe'', ''Ni''].
              r \<noteq> row_of (length [''Al'', ''Cr'', ''Co'', ''Fe'', ''Ni'']) ([0, 1] ! 0) \<and>
              r \<noteq> row_of (length [''Al'', ''Cr'', ''Co'', ''Fe'', ''Ni'']) ([0, 1] ! 1) \<and>
              r \<notin> row_of (length [''Al'', ''Cr'', ''Co'', ''Fe'', ''Ni'']) ` set [2, 3]
              \<longrightarrow> (\<forall>i<2. m ! r ! i = 0))"
    by (rule C10_constant_allocation) (simp_all add: in_range_def row_of_def)
  with ev show ?thesis by simp
qed

text \<open>
  C10 as stated fails at \<open>c = 0\<close>: with two constant indices both columns still sum to 1.
\<close>

theorem C10_counterexample:
  "mesh_concentrations [''Al'', ''Cr'', ''Co'', ''Fe'', ''Ni''] 2 [0, 1] [2, 3] 0
     = Inr [[0, 1], [1, 0], [0, 0], [0, 0], [0, 0]]
   \<and> column_sum [[0, 1], [1, 0], [0, 0], [0, 0], [0, 0]] 0 = 1
   \<and> column_sum [[0, 1], [1, 0], [0, 0], [0, 0], [0, 0]] 1 = 1
   \<and> length [2, 3 :: int] \<noteq> 3"
  by code_simp

section \<open>Properties of one grid point and of the loops\<close>

lemma trace_emit [simp]: "trace (emit e st) = trace st @ [e]"
  and files_emit [simp]: "files (emit e st) = files st"
  and dirs_emit [simp]: "dirs (emit e st) = dirs st"
  and counter_emit [simp]: "counter (emit e st) = counter st"
  by (simp_all add: emit_def)

lemma save_groups_trace:
  "save_groups env st g f = (r, st') \<Longrightarrow>
     trace st' = trace st \<and> counter st' = counter st \<and> dirs st' = dirs st"
  by (auto simp: save_groups_def Let_def split: if_splits option.splits)

lemma save_groups_result:
  "save_groups env st g f = (r, st') \<Longrightarrow>
     r = Inr () \<or> r = Inl OSError \<or> r = Inl PicklingError"
  by (auto simp: save_groups_def Let_def split: if_splits option.splits)

lemma session_body_shape:
  assumes "session_body env P c i Al_x Cr_x Co_x Fe_x Ni_x mx st = (r, st')"
  shows "counter st' = counter st \<and> dirs st' = dirs st \<and>
    (((r = Inl ZeroDivisionError \<or> r = Inl UnrecoverableCalculationException \<or>
       r = Inl EngineError) \<and>
      trace st' = trace st @ [SelectSystem c i (database P) (element_list P)]) \<or>
     (\<exists>req. (r = Inl UnrecoverableCalculationException \<or> r = Inl EngineError \<or>
              r = Inl OSError \<or> r = Inl PicklingError) \<and>
            trace st' = trace st @ [SelectSystem c i (database P) (element_list P),
                                    Calculate c i req]) \<or>
     (\<exists>req path. r = Inr () \<and>
            trace st' = trace st @ [SelectSystem c i (database P) (element_list P),
                                    Calculate c i req, PrintSaved path]))"
proof (cases "select_system env (counter st) (database P) (element_list P)")
  case Unrecoverable
  with assms show ?thesis by (auto simp: session_body_def Let_def)
next
  case OtherFailure
  with assms show ?thesis by (auto simp: session_body_def Let_def)
next
  case sel: (Calculated u)
  let ?st0 = "emit (SelectSystem c i (database P) (element_list P)) st"
  show ?thesis
  proof (cases "mx = 0")
    case True
    with assms sel show ?thesis by (auto simp: session_body_def Let_def)
  next
    case False
    let ?req = "build_request P Cr_x Co_x Fe_x Ni_x mx"
    show ?thesis
    proof (cases "engine env (counter st) ?req")
      case (Calculated g)
      let ?path = "os_path_join (output_dir P) (pkl_filename (float_str env) Al_x Cr_x Co_x Fe_x Ni_x)"
      obtain r2 st2 where s: "save_groups env (emit (Calculate c i ?req) ?st0) g ?path = (r2, st2)"
        by (cases "save_groups env (emit (Calculate c i ?req) ?st0) g ?path")
      from save_groups_trace[OF s] save_groups_result[OF s] assms sel False Calculated s
      show ?thesis
        by (auto simp: session_body_def Let_def)
    next
      case Unrecoverable
      with assms sel False show ?thesis by (auto simp: session_body_def Let_def)
    next
      case OtherFailure
      with assms sel False show ?thesis by (auto simp: session_body_def Let_def)
    qed
  qed
qed

text \<open>The events of one grid point, by the way the iteration ends.\<close>

lemma process_point_shape:
  assumes "process_point env P m c i st = (r, st')"
  shows "counter st' = counter st + 1 \<and> dirs st' = dirs st \<and>
    ((r = Inl IndexError \<and> trace st' = trace st @ [PrintCalculating (counter st + 1)]) \<or>
     ((r = Inl ZeroDivisionError \<or> r = Inl EngineError) \<and>
        trace st' = trace st @ [PrintCalculating (counter st + 1), SessionEnter,
                                SelectSystem c i (database P) (element_list P), SessionExit]) \<or>
     (r = Inr () \<and>
        trace st' = trace st @ [PrintCalculating (counter st + 1), SessionEnter,
                                SelectSystem c i (database P) (element_list P), SessionExit,
                                PrintCouldNotCalculate]) \<or>
     (\<exists>req. r = Inr () \<and>
        trace st' = trace st @ [PrintCalculating (counter st + 1), SessionEnter,
                                SelectSystem c i (database P) (element_list P),
                                Calculate c i req, SessionExit, PrintCouldNotCalculate]) \<or>
     (\<exists>req. (r = Inl EngineError \<or> r = Inl OSError \<or> r = Inl PicklingError) \<and>
        trace st' = trace st @ [PrintCalculating (counter st + 1), SessionEnter,
                                SelectSystem c i (database P) (element_list P),
                                Calculate c i req, SessionExit]) \<or>
     (\<exists>req path. r = Inr () \<and>
        trace st' = trace st @ [PrintCalculating (counter st + 1), SessionEnter,
                                SelectSystem c i (database P) (element_list P),
                                Calculate c i req, PrintSaved path, SessionExit]))"
proof -
  let ?st2 = "emit (PrintCalculating (counter st + 1)) (st\<lparr>counter := counter st + 1\<rparr>)"
  have st2: "trace ?st2 = trace st @ [PrintCalculating (counter st + 1)]"
    "counter ?st2 = counter st + 1" "dirs ?st2 = dirs st"
    by simp_all
  show ?thesis
  proof (cases "\<exists>a b c' d e. getitem m 0 i = Inr a \<and> getitem m 1 i = Inr b \<and>
      getitem m 2 i = Inr c' \<and> getitem m 3 i = Inr d \<and> getitem m 4 i = Inr e")
    case False
    then have "r = Inl IndexError \<and> st' = ?st2"
      using assms
      by (auto simp: process_point_def Let_def getitem_def split: sum.splits if_splits)
    with st2 show ?thesis by simp
  next
    case True
    then obtain Al_x Cr_x Co_x Fe_x Ni_x where g: "getitem m 0 i = Inr Al_x"
      "getitem m 1 i = Inr Cr_x" "getitem m 2 i = Inr Co_x" "getitem m 3 i = Inr Fe_x"
      "getitem m 4 i = Inr Ni_x" by blast
    let ?mx = "py_round (1 - Cr_x - Co_x - Fe_x - Ni_x) 3"
    obtain r1 st3 where b: "session_body env P c i Al_x Cr_x Co_x Fe_x Ni_x ?mx (emit SessionEnter ?st2) = (r1, st3)"
      by (cases "session_body env P c i Al_x Cr_x Co_x Fe_x Ni_x ?mx (emit SessionEnter ?st2)")
    have pp: "process_point env P m c i st =
        (case (r1, emit SessionExit st3) of
           (Inl UnrecoverableCalculationException, s) \<Rightarrow> (Inr (), emit PrintCouldNotCalculate s)
         | (r, s) \<Rightarrow> (r, s))"
      using g b by (simp add: process_point_def Let_def with_session_def)
    from session_body_shape[OF b] pp assms show ?thesis
      by (auto split: sum.splits error.splits)
  qed
qed












lemma getitem_has_point:
  assumes "has_point m i"
  shows "getitem m 0 i = Inr (m ! 0 ! i)" "getitem m 1 i = Inr (m ! 1 ! i)"
    "getitem m 2 i = Inr (m ! 2 ! i)" "getitem m 3 i = Inr (m ! 3 ! i)"
    "getitem m 4 i = Inr (m ! 4 ! i)"
proof -
  from assms have "0 < length m" "1 < length m" "2 < length m" "3 < length m" "4 < length m"
    unfolding has_point_def by linarith+
  moreover from assms have "i < length (m ! 0)" "i < length (m ! 1)" "i < length (m ! 2)"
    "i < length (m ! 3)" "i < length (m ! 4)"
    unfolding has_point_def by blast+
  ultimately show "getitem m 0 i = Inr (m ! 0 ! i)" "getitem m 1 i = Inr (m ! 1 ! i)"
    "getitem m 2 i = Inr (m ! 2 ! i)" "getitem m 3 i = Inr (m ! 3 ! i)"
    "getitem m 4 i = Inr (m ! 4 ! i)"
    unfolding getitem_def by simp_all
qed

lemma getitem_no_point:
  assumes "\<not> has_point m i"
  shows "getitem m 0 i = Inl IndexError \<or> getitem m 1 i = Inl IndexError \<or>
    getitem m 2 i = Inl IndexError \<or> getitem m 3 i = Inl IndexError \<or>
    getitem m 4 i = Inl IndexError"
proof (rule ccontr)
  assume "\<not> ?thesis"
  then have "4 < length m \<and> i < length (m ! 0) \<and> i < length (m ! 1) \<and> i < length (m ! 2) \<and>
      i < length (m ! 3) \<and> i < length (m ! 4)"
    by (auto simp: getitem_def split: if_splits)
  then have "has_point m i" by (simp add: has_point_def)
  with assms show False by simp
qed

lemma write_file_twice: "write_file (write_file fs p x) p y = write_file fs p y"
  by (simp add: write_file_def)

lemma map_of_write_file: "map_of (write_file fs p x) p = Some x"
  by (simp add: write_file_def)

text \<open>The iteration for a grid point that the mesh holds, by what the engine does.\<close>

lemma process_point_in_session:
  assumes hp: "has_point m i"
  shows "process_point env P m c i st =
    (let st2 = emit (PrintCalculating (counter st + 1)) (st\<lparr>counter := counter st + 1\<rparr>)
     in case with_session
           (session_body env P c i (m ! 0 ! i) (m ! 1 ! i) (m ! 2 ! i) (m ! 3 ! i) (m ! 4 ! i)
              (max_concentration m i)) st2 of
                 (Inl UnrecoverableCalculationException, st3) \<Rightarrow>
                   (Inr (), emit PrintCouldNotCalculate st3)
               | (r, st3) \<Rightarrow> (r, st3))"
  using getitem_has_point[OF hp]
  by (simp add: process_point_def Let_def max_concentration_def)

lemma process_point_unrecoverable:
  assumes hp: "has_point m i"
    and en: "engine_unrecoverable env P m i (counter st + 1)"
  shows "process_point env P m c i st =
    (Inr (), st\<lparr>counter := counter st + 1,
                trace := trace st @ [PrintCalculating (counter st + 1), SessionEnter,
                  SelectSystem c i (database P) (element_list P)] @
                  (if select_system env (counter st + 1) (database P) (element_list P)
                      = Unrecoverable
                   then [] else [Calculate c i (point_request P m i)]) @
                  [SessionExit, PrintCouldNotCalculate]\<rparr>)"
  using en unfolding engine_unrecoverable_def
  by (auto simp: process_point_in_session[OF hp] with_session_def session_body_def
      Let_def point_request_def emit_def)

lemma process_point_other_failure:
  assumes hp: "has_point m i"
    and en: "engine_other_failure env P m i (counter st + 1)"
  shows "process_point env P m c i st =
    (Inl EngineError, st\<lparr>counter := counter st + 1,
                trace := trace st @ [PrintCalculating (counter st + 1), SessionEnter,
                  SelectSystem c i (database P) (element_list P)] @
                  (if select_system env (counter st + 1) (database P) (element_list P)
                      = OtherFailure
                   then [] else [Calculate c i (point_request P m i)]) @
                  [SessionExit]\<rparr>)"
  using en unfolding engine_other_failure_def
  by (auto simp: process_point_in_session[OF hp] with_session_def session_body_def
      Let_def point_request_def emit_def)

lemma process_point_saved:
  assumes hp: "has_point m i"
    and en: "engine_calculates env P m i (counter st + 1) g"
    and op: "can_open_wb env (point_path env P m i)"
    and du: "pickle_dumps env g = Some content"
  shows "process_point env P m c i st =
    (Inr (), st\<lparr>counter := counter st + 1,
                files := write_file (files st) (point_path env P m i) content,
                trace := trace st @ [PrintCalculating (counter st + 1), SessionEnter,
                  SelectSystem c i (database P) (element_list P),
                  Calculate c i (point_request P m i), PrintSaved (point_path env P m i),
                  SessionExit]\<rparr>)"
  using en op du unfolding engine_calculates_def
  by (simp add: process_point_in_session[OF hp] with_session_def session_body_def
      Let_def point_request_def point_path_def emit_def save_groups_def write_file_twice)

lemma process_point_cannot_open:
  assumes hp: "has_point m i"
    and en: "engine_calculates env P m i (counter st + 1) g"
    and op: "\<not> can_open_wb env (point_path env P m i)"
  shows "process_point env P m c i st =
    (Inl OSError, st\<lparr>counter := counter st + 1,
                trace := trace st @ [PrintCalculating (counter st + 1), SessionEnter,
                  SelectSystem c i (database P) (element_list P),
                  Calculate c i (point_request P m i), SessionExit]\<rparr>)"
  using en op unfolding engine_calculates_def
  by (simp add: process_point_in_session[OF hp] with_session_def session_body_def
      Let_def point_request_def point_path_def emit_def save_groups_def)

lemma process_point_zero_division:
  assumes hp: "has_point m i"
    and sel: "select_system env (counter st + 1) (database P) (element_list P) = Calculated ()"
    and mx: "max_concentration m i = 0"
  shows "process_point env P m c i st =
    (Inl ZeroDivisionError, st\<lparr>counter := counter st + 1,
                trace := trace st @ [PrintCalculating (counter st + 1), SessionEnter,
                  SelectSystem c i (database P) (element_list P), SessionExit]\<rparr>)"
  using sel mx
  by (simp add: process_point_in_session[OF hp] with_session_def session_body_def
      Let_def emit_def)

lemma process_point_index_error:
  assumes "\<not> has_point m i"
  shows "process_point env P m c i st =
    (Inl IndexError, st\<lparr>counter := counter st + 1,
                trace := trace st @ [PrintCalculating (counter st + 1)]\<rparr>)"
  using getitem_no_point[OF assms]
  by (auto simp: process_point_def Let_def emit_def getitem_def split: sum.splits if_splits)

lemma process_point_never_unrecoverable:
  assumes "process_point env P m c i st = (Inl e, st')"
  shows "e \<noteq> UnrecoverableCalculationException"
  using process_point_shape[OF assms] by auto

lemma points_loop_propagates:
  "process_point env P m c i st = (Inl e, st') \<Longrightarrow>
     points_loop env P m c (i # is) st = (Inl e, st')"
  by simp

lemma points_loop_continues:
  "process_point env P m c i st = (Inr u, st') \<Longrightarrow>
     points_loop env P m c (i # is) st = points_loop env P m c is st'"
  by simp

lemma os_path_join_pkl_filename:
  "os_path_join dir (pkl_filename fstr a0 a1 a2 a3 a4) =
     (if dir = [] \<or> last dir = CHR ''/'' then dir else dir @ ''/'') @
     pkl_filename fstr a0 a1 a2 a3 a4"
  by (simp add: os_path_join_def pkl_filename_def)

lemma split_at_char:
  "x \<notin> set u \<Longrightarrow> x \<notin> set u' \<Longrightarrow> u @ x # v = u' @ x # v' \<Longrightarrow> u = u' \<and> v = v'"
proof (induction u arbitrary: u')
  case Nil
  then show ?case by (cases u') auto
next
  case (Cons a u)
  then show ?case by (cases u') auto
qed

lemma name_parts_inj:
  assumes C0: "CHR ''C'' \<notin> set A0" "CHR ''C'' \<notin> set B0"
    and C1: "CHR ''C'' \<notin> set A1" "CHR ''C'' \<notin> set B1"
    and F2: "CHR ''F'' \<notin> set A2" "CHR ''F'' \<notin> set B2"
    and N3: "CHR ''N'' \<notin> set A3" "CHR ''N'' \<notin> set B3"
    and eq: "''Al'' @ A0 @ ''-Cr'' @ A1 @ ''-Co'' @ A2 @ ''-Fe'' @ A3 @ ''-Ni'' @ A4 @ ''.pkl''
           = ''Al'' @ B0 @ ''-Cr'' @ B1 @ ''-Co'' @ B2 @ ''-Fe'' @ B3 @ ''-Ni'' @ B4 @ ''.pkl''"
  shows "A0 = B0 \<and> A1 = B1 \<and> A2 = B2 \<and> A3 = B3 \<and> A4 = B4"
proof -
  from eq have "(A0 @ ''-'') @ CHR ''C'' # (''r'' @ A1 @ ''-Co'' @ A2 @ ''-Fe'' @ A3 @ ''-Ni'' @ A4 @ ''.pkl'')
      = (B0 @ ''-'') @ CHR ''C'' # (''r'' @ B1 @ ''-Co'' @ B2 @ ''-Fe'' @ B3 @ ''-Ni'' @ B4 @ ''.pkl'')"
    by simp
  from split_at_char[OF _ _ this] C0
  have e0: "A0 = B0" and r0: "A1 @ ''-Co'' @ A2 @ ''-Fe'' @ A3 @ ''-Ni'' @ A4 @ ''.pkl''
      = B1 @ ''-Co'' @ B2 @ ''-Fe'' @ B3 @ ''-Ni'' @ B4 @ ''.pkl''"
    by simp_all
  from r0 have "(A1 @ ''-'') @ CHR ''C'' # (''o'' @ A2 @ ''-Fe'' @ A3 @ ''-Ni'' @ A4 @ ''.pkl'')
      = (B1 @ ''-'') @ CHR ''C'' # (''o'' @ B2 @ ''-Fe'' @ B3 @ ''-Ni'' @ B4 @ ''.pkl'')"
    by simp
  from split_at_char[OF _ _ this] C1
  have e1: "A1 = B1" and r1: "A2 @ ''-Fe'' @ A3 @ ''-Ni'' @ A4 @ ''.pkl''
      = B2 @ ''-Fe'' @ B3 @ ''-Ni'' @ B4 @ ''.pkl''"
    by simp_all
  from r1 have "(A2 @ ''-'') @ CHR ''F'' # (''e'' @ A3 @ ''-Ni'' @ A4 @ ''.pkl'')
      = (B2 @ ''-'') @ CHR ''F'' # (''e'' @ B3 @ ''-Ni'' @ B4 @ ''.pkl'')"
    by simp
  from split_at_char[OF _ _ this] F2
  have e2: "A2 = B2" and r2: "A3 @ ''-Ni'' @ A4 @ ''.pkl'' = B3 @ ''-Ni'' @ B4 @ ''.pkl''"
    by simp_all
  from r2 have "(A3 @ ''-'') @ CHR ''N'' # (''i'' @ A4 @ ''.pkl'')
      = (B3 @ ''-'') @ CHR ''N'' # (''i'' @ B4 @ ''.pkl'')"
    by simp
  from split_at_char[OF _ _ this] N3
  have e3: "A3 = B3" and e4: "A4 = B4"
    by simp_all
  from e0 e1 e2 e3 e4 show ?thesis by simp
qed

lemma process_point_pickling_error:
  assumes hp: "has_point m i"
    and en: "engine_calculates env P m i (counter st + 1) g"
    and op: "can_open_wb env (point_path env P m i)"
    and du: "pickle_dumps env g = None"
  shows "process_point env P m c i st =
    (Inl PicklingError, st\<lparr>counter := counter st + 1,
                files := write_file (files st) (point_path env P m i) [],
                trace := trace st @ [PrintCalculating (counter st + 1), SessionEnter,
                  SelectSystem c i (database P) (element_list P),
                  Calculate c i (point_request P m i), SessionExit]\<rparr>)"
  using en op du unfolding engine_calculates_def
  by (simp add: process_point_in_session[OF hp] with_session_def session_body_def
      Let_def point_request_def point_path_def emit_def save_groups_def)

text \<open>An iteration returns normally in two cases only.\<close>

lemma process_point_returns_only_if:
  assumes pp: "process_point env P m c i st = (Inr (), st')"
  shows "has_point m i \<and>
    (engine_unrecoverable env P m i (counter st + 1) \<or>
     (\<exists>g content. engine_calculates env P m i (counter st + 1) g \<and>
        can_open_wb env (point_path env P m i) \<and> pickle_dumps env g = Some content))"
proof -
  let ?k = "counter st + 1"
  have hp: "has_point m i"
  proof (rule ccontr)
    assume "\<not> has_point m i"
    from process_point_index_error[OF this, of env P c st] pp show False by simp
  qed
  have "engine_unrecoverable env P m i ?k \<or>
     (\<exists>g content. engine_calculates env P m i ?k g \<and>
        can_open_wb env (point_path env P m i) \<and> pickle_dumps env g = Some content)"
  proof (cases "select_system env ?k (database P) (element_list P)")
    case Unrecoverable
    then show ?thesis by (simp add: engine_unrecoverable_def)
  next
    case OtherFailure
    then have "engine_other_failure env P m i ?k" by (simp add: engine_other_failure_def)
    from process_point_other_failure[OF hp this, of c] pp show ?thesis by simp
  next
    case sel: (Calculated u)
    then have sel': "select_system env ?k (database P) (element_list P) = Calculated ()"
      by simp
    show ?thesis
    proof (cases "max_concentration m i = 0")
      case True
      from process_point_zero_division[OF hp sel' True, of c] pp show ?thesis by simp
    next
      case mx: False
      show ?thesis
      proof (cases "engine env ?k (point_request P m i)")
        case Unrecoverable
        with sel' mx show ?thesis by (simp add: engine_unrecoverable_def)
      next
        case OtherFailure
        with sel' mx have "engine_other_failure env P m i ?k"
          by (simp add: engine_other_failure_def)
        from process_point_other_failure[OF hp this, of c] pp show ?thesis by simp
      next
        case (Calculated g)
        with sel' mx have calc: "engine_calculates env P m i ?k g"
          by (simp add: engine_calculates_def)
        show ?thesis
        proof (cases "can_open_wb env (point_path env P m i)")
          case False
          from process_point_cannot_open[OF hp calc False, of c] pp show ?thesis by simp
        next
          case op: True
          show ?thesis
          proof (cases "pickle_dumps env g")
            case None
            from process_point_pickling_error[OF hp calc op None, of c] pp
            show ?thesis by simp
          next
            case (Some content)
            with calc op show ?thesis by blast
          qed
        qed
      qed
    qed
  qed
  with hp show ?thesis by simp
qed

lemma path_exists_run_start [simp]:
  "path_exists (st\<lparr>trace := t, counter := k\<rparr>) path = path_exists st path"
  by (simp add: path_exists_def)

text \<open>The steps of the two loops and of the run, one fact for each way they go.\<close>

lemma point_unrecoverable_step:
  "has_point m i \<and> engine_unrecoverable env P m i (counter st + 1) \<longrightarrow>
      (\<exists>st'. process_point env P m c i st = (Inr (), st') \<and> files st' = files st \<and>
             trace st' = trace st @ [PrintCalculating (counter st + 1), SessionEnter,
                  SelectSystem c i (database P) (element_list P)] @
                  (if select_system env (counter st + 1) (database P) (element_list P)
                      = Unrecoverable
                   then [] else [Calculate c i (point_request P m i)]) @
                  [SessionExit, PrintCouldNotCalculate] \<and>
             points_loop env P m c (i # rest) st = points_loop env P m c rest st')"
proof (intro impI, elim conjE)
  assume h: "has_point m i" "engine_unrecoverable env P m i (counter st + 1)"
  let ?st' = "st\<lparr>counter := counter st + 1,
                trace := trace st @ [PrintCalculating (counter st + 1), SessionEnter,
                  SelectSystem c i (database P) (element_list P)] @
                  (if select_system env (counter st + 1) (database P) (element_list P)
                      = Unrecoverable
                   then [] else [Calculate c i (point_request P m i)]) @
                  [SessionExit, PrintCouldNotCalculate]\<rparr>"
  have pp: "process_point env P m c i st = (Inr (), ?st')"
    using h by (rule process_point_unrecoverable)
  have "points_loop env P m c (i # rest) st = points_loop env P m c rest ?st'"
    using pp by (rule points_loop_continues)
  with pp show "\<exists>st'. process_point env P m c i st = (Inr (), st') \<and> files st' = files st \<and>
             trace st' = trace st @ [PrintCalculating (counter st + 1), SessionEnter,
                  SelectSystem c i (database P) (element_list P)] @
                  (if select_system env (counter st + 1) (database P) (element_list P)
                      = Unrecoverable
                   then [] else [Calculate c i (point_request P m i)]) @
                  [SessionExit, PrintCouldNotCalculate] \<and>
             points_loop env P m c (i # rest) st = points_loop env P m c rest st'"
    by (intro exI[of _ ?st']) simp
qed

lemma point_returned_step:
  "\<forall>st'. process_point env P m c i st = (Inr (), st') \<longrightarrow>
      points_loop env P m c (i # rest) st = points_loop env P m c rest st'"
  by simp

lemma point_raised_step:
  "\<forall>e st'. process_point env P m c i st = (Inl e, st') \<longrightarrow>
      e \<noteq> UnrecoverableCalculationException \<and>
      points_loop env P m c (i # rest) st = (Inl e, st')"
  using process_point_never_unrecoverable points_loop_propagates by blast

lemma point_returns_only_if:
  "\<forall>st'. process_point env P m c i st = (Inr (), st') \<longrightarrow>
      has_point m i \<and>
      (engine_unrecoverable env P m i (counter st + 1) \<or>
       (\<exists>g content. engine_calculates env P m i (counter st + 1) g \<and>
          can_open_wb env (point_path env P m i) \<and> pickle_dumps env g = Some content))"
  using process_point_returns_only_if by blast

lemma outer_mesh_raised_step:
  "\<forall>e. mesh_concentrations (element_list P) (n_iterations P)
               (indices_of_changing_elements P) (indices_of_constant_elements P) c = Inl e \<longrightarrow>
      concentrations_loop env P (c # cs) st = (Inl e, st)"
  by simp

lemma outer_points_raised_step:
  "\<forall>e st'. mesh_concentrations (element_list P) (n_iterations P)
               (indices_of_changing_elements P) (indices_of_constant_elements P) c = Inr m \<and>
             points_loop env P m c [1..<n_iterations P - 1] st = (Inl e, st') \<longrightarrow>
      concentrations_loop env P (c # cs) st = (Inl e, st')"
  by simp

lemma outer_points_returned_step:
  "\<forall>st'. mesh_concentrations (element_list P) (n_iterations P)
               (indices_of_changing_elements P) (indices_of_constant_elements P) c = Inr m \<and>
             points_loop env P m c [1..<n_iterations P - 1] st = (Inr (), st') \<longrightarrow>
      concentrations_loop env P (c # cs) st = concentrations_loop env P cs st'"
  by simp

lemma run_existing_dir:
  "path_exists st0 (output_dir P) \<longrightarrow>
      run_phase_diagram_calculations env P st0 =
        concentrations_loop env P (constant_C_of_others P)
          (st0\<lparr>trace := [], counter := 0\<rparr>)"
  by (simp add: run_phase_diagram_calculations_def Let_def)

lemma run_makedirs:
  "\<not> path_exists st0 (output_dir P) \<and> can_makedirs env (output_dir P) \<longrightarrow>
      run_phase_diagram_calculations env P st0 =
        concentrations_loop env P (constant_C_of_others P)
          (st0\<lparr>dirs := output_dir P # dirs st0, trace := [Makedirs (output_dir P)],
               counter := 0\<rparr>)"
  by (simp add: run_phase_diagram_calculations_def Let_def os_makedirs_def emit_def)

lemma run_makedirs_raised:
  "\<not> path_exists st0 (output_dir P) \<and> \<not> can_makedirs env (output_dir P) \<longrightarrow>
      run_phase_diagram_calculations env P st0 =
        (Inl OSError, st0\<lparr>trace := [], counter := 0\<rparr>)"
  by (simp add: run_phase_diagram_calculations_def Let_def os_makedirs_def)

lemma point_other_failure_step:
  "has_point m i \<and> engine_other_failure env P m i (counter st + 1) \<longrightarrow>
      (\<exists>st'. process_point env P m c i st = (Inl EngineError, st') \<and> files st' = files st)"
proof (intro impI, elim conjE)
  assume h: "has_point m i" "engine_other_failure env P m i (counter st + 1)"
  from process_point_other_failure[OF h, of c]
  show "\<exists>st'. process_point env P m c i st = (Inl EngineError, st') \<and> files st' = files st"
    by simp
qed

lemma point_cannot_open_step:
  "\<forall>g. has_point m i \<and> engine_calculates env P m i (counter st + 1) g \<and>
    \<not> can_open_wb env (point_path env P m i) \<longrightarrow>
      (\<exists>st'. process_point env P m c i st = (Inl OSError, st') \<and> files st' = files st)"
proof (intro allI impI, elim conjE)
  fix g
  assume h: "has_point m i" "engine_calculates env P m i (counter st + 1) g"
    "\<not> can_open_wb env (point_path env P m i)"
  from process_point_cannot_open[OF h, of c]
  show "\<exists>st'. process_point env P m c i st = (Inl OSError, st') \<and> files st' = files st"
    by simp
qed

lemma point_pickling_step:
  "\<forall>g. has_point m i \<and> engine_calculates env P m i (counter st + 1) g \<and>
    can_open_wb env (point_path env P m i) \<and> pickle_dumps env g = None \<longrightarrow>
      (\<exists>st'. process_point env P m c i st = (Inl PicklingError, st'))"
proof (intro allI impI, elim conjE)
  fix g
  assume h: "has_point m i" "engine_calculates env P m i (counter st + 1) g"
    "can_open_wb env (point_path env P m i)" "pickle_dumps env g = None"
  from process_point_pickling_error[OF h, of c]
  show "\<exists>st'. process_point env P m c i st = (Inl PicklingError, st')"
    by simp
qed

lemma point_zero_division_step:
  "has_point m i \<and>
    select_system env (counter st + 1) (database P) (element_list P) = Calculated () \<and>
    max_concentration m i = 0 \<longrightarrow>
      (\<exists>st'. process_point env P m c i st = (Inl ZeroDivisionError, st') \<and>
             files st' = files st)"
proof (intro impI, elim conjE)
  assume h: "has_point m i"
    "select_system env (counter st + 1) (database P) (element_list P) = Calculated ()"
    "max_concentration m i = 0"
  from process_point_zero_division[OF h, of c]
  show "\<exists>st'. process_point env P m c i st = (Inl ZeroDivisionError, st') \<and>
             files st' = files st"
    by simp
qed

lemma point_index_error_step:
  "\<not> has_point m i \<longrightarrow>
      (\<exists>st'. process_point env P m c i st = (Inl IndexError, st'))"
  using process_point_index_error by blast

section \<open>Claims about the run of the calculations\<close>





text \<open>
  C4. At any grid point \<open>i\<close>, followed in the inner loop by the grid points \<open>rest\<close>:
  if the engine raises \<^verbatim>\<open>UnrecoverableCalculationException\<close> (the mesh holding the point),
  the iteration returns normally, its last events are the exit of the session and the
  message that the system could not be calculated, no file is changed, and the loop goes
  on with all the remaining grid points. An iteration returns normally, and the loop goes
  on, in two cases only: the engine raised that exception, or the result was calculated
  and saved. Every exception that ends an iteration is therefore another exception; it
  ends the inner loop at once, skipping the remaining grid points, ends the outer loop with
  it, skipping the remaining concentrations, and is what the run returns, since the run is
  the outer loop started on the output directory, which it creates first when it is
  absent (failing to create it ends the run too). Such exceptions do occur: another
  failure of the engine, a result file that cannot be opened for writing (nothing is
  saved), a result that \<^verbatim>\<open>pickle\<close> cannot serialise, a division by a bound of the first
  axis that is rounded to 0, a mesh without the five rows that the program reads; an
  \<^verbatim>\<open>IndexError\<close> of \<open>mesh_concentrations\<close> ends the run as well.
\<close>

theorem C4_unrecoverable_skipped_others_propagate:
  "(has_point m i \<and> engine_unrecoverable env P m i (counter st + 1) \<longrightarrow>
      (\<exists>st'. process_point env P m c i st = (Inr (), st') \<and> files st' = files st \<and>
             trace st' = trace st @ [PrintCalculating (counter st + 1), SessionEnter,
                  SelectSystem c i (database P) (element_list P)] @
                  (if select_system env (counter st + 1) (database P) (element_list P)
                      = Unrecoverable
                   then [] else [Calculate c i (point_request P m i)]) @
                  [SessionExit, PrintCouldNotCalculate] \<and>
             points_loop env P m c (i # rest) st = points_loop env P m c rest st')) \<and>
   (\<forall>st'. process_point env P m c i st = (Inr (), st') \<longrightarrow>
      points_loop env P m c (i # rest) st = points_loop env P m c rest st') \<and>
   (\<forall>e st'. process_point env P m c i st = (Inl e, st') \<longrightarrow>
      e \<noteq> UnrecoverableCalculationException \<and>
      points_loop env P m c (i # rest) st = (Inl e, st')) \<and>
   (\<forall>st'. process_point env P m c i st = (Inr (), st') \<longrightarrow>
      has_point m i \<and>
      (engine_unrecoverable env P m i (counter st + 1) \<or>
       (\<exists>g content. engine_calculates env P m i (counter st + 1) g \<and>
          can_open_wb env (point_path env P m i) \<and> pickle_dumps env g = Some content))) \<and>
   points_loop env P m c [] st = (Inr (), st) \<and>
   (\<forall>e. mesh_concentrations (element_list P) (n_iterations P)
               (indices_of_changing_elements P) (indices_of_constant_elements P) c = Inl e \<longrightarrow>
      concentrations_loop env P (c # cs) st = (Inl e, st)) \<and>
   (\<forall>e st'. mesh_concentrations (element_list P) (n_iterations P)
               (indices_of_changing_elements P) (indices_of_constant_elements P) c = Inr m \<and>
             points_loop env P m c [1..<n_iterations P - 1] st = (Inl e, st') \<longrightarrow>
      concentrations_loop env P (c # cs) st = (Inl e, st')) \<and>
   (\<forall>st'. mesh_concentrations (element_list P) (n_iterations P)
               (indices_of_changing_elements P) (indices_of_constant_elements P) c = Inr m \<and>
             points_loop env P m c [1..<n_iterations P - 1] st = (Inr (), st') \<longrightarrow>
      concentrations_loop env P (c # cs) st = concentrations_loop env P cs st') \<and>
   concentrations_loop env P [] st = (Inr (), st) \<and>
   (path_exists st0 (output_dir P) \<longrightarrow>
      run_phase_diagram_calculations env P st0 =
        concentrations_loop env P (constant_C_of_others P)
          (st0\<lparr>trace := [], counter := 0\<rparr>)) \<and>
   (\<not> path_exists st0 (output_dir P) \<and> can_makedirs env (output_dir P) \<longrightarrow>
      run_phase_diagram_calculations env P st0 =
        concentrations_loop env P (constant_C_of_others P)
          (st0\<lparr>dirs := output_dir P # dirs st0, trace := [Makedirs (output_dir P)],
               counter := 0\<rparr>)) \<and>
   (\<not> path_exists st0 (output_dir P) \<and> \<not> can_makedirs env (output_dir P) \<longrightarrow>
      run_phase_diagram_calculations env P st0 =
        (Inl OSError, st0\<lparr>trace := [], counter := 0\<rparr>)) \<and>
   (has_point m i \<and> engine_other_failure env P m i (counter st + 1) \<longrightarrow>
      (\<exists>st'. process_point env P m c i st = (Inl EngineError, st') \<and> files st' = files st)) \<and>
   (\<forall>g. has_point m i \<and> engine_calculates env P m i (counter st + 1) g \<and>
    \<not> can_open_wb env (point_path env P m i) \<longrightarrow>
      (\<exists>st'. process_point env P m c i st = (Inl OSError, st') \<and> files st' = files st)) \<and>
   (\<forall>g. has_point m i \<and> engine_calculates env P m i (counter st + 1) g \<and>
    can_open_wb env (point_path env P m i) \<and> pickle_dumps env g = None \<longrightarrow>
      (\<exists>st'. process_point env P m c i st = (Inl PicklingError, st'))) \<and>
   (has_point m i \<and>
    select_system env (counter st + 1) (database P) (element_list P) = Calculated () \<and>
    max_concentration m i = 0 \<longrightarrow>
      (\<exists>st'. process_point env P m c i st = (Inl ZeroDivisionError, st') \<and>
             files st' = files st)) \<and>
   (\<not> has_point m i \<longrightarrow>
      (\<exists>st'. process_point env P m c i st = (Inl IndexError, st')))"
  by (intro conjI point_unrecoverable_step point_returned_step point_raised_step
      point_returns_only_if points_loop.simps(1) outer_mesh_raised_step
      outer_points_raised_step outer_points_returned_step concentrations_loop.simps(1)
      run_existing_dir run_makedirs run_makedirs_raised point_other_failure_step
      point_cannot_open_step point_pickling_step point_zero_division_step
      point_index_error_step)

text \<open>
  C4 on the example: at the second system the example engine fails to calculate, the
  iteration returns and saves nothing; with an engine that raises another exception there,
  the inner loop over the grid points 2 and 3 ends with that exception; with a \<^verbatim>\<open>pickle\<close>
  that cannot serialise, the first iteration ends with its exception; and the run creates
  the output directory and is the outer loop from there.
\<close>

theorem C4_witness:
  "fst (process_point example_env example_params example_mesh (1 / 10) 2
          (empty_state\<lparr>counter := 1\<rparr>)) = Inr () \<and>
   files (snd (process_point example_env example_params example_mesh (1 / 10) 2
          (empty_state\<lparr>counter := 1\<rparr>))) = [] \<and>
   fst (points_loop failing_env example_params example_mesh (1 / 10) [2, 3]
          (empty_state\<lparr>counter := 1\<rparr>)) = Inl EngineError \<and>
   fst (process_point unpicklable_env example_params example_mesh (1 / 10) 1 empty_state)
     = Inl PicklingError \<and>
   run_phase_diagram_calculations failing_env example_params empty_state =
     concentrations_loop failing_env example_params [1 / 10, 1 / 5]
       (empty_state\<lparr>dirs := [''results''], trace := [Makedirs ''results''], counter := 0\<rparr>)"
proof -
  let ?st = "empty_state\<lparr>counter := 1\<rparr>"
  have hp: "has_point example_mesh 2" and hp1: "has_point example_mesh 1" by code_simp+
  have mx: "max_concentration example_mesh 2 \<noteq> 0"
    and mx1: "max_concentration example_mesh 1 \<noteq> 0" by code_simp+
  have un: "engine_unrecoverable example_env example_params example_mesh 2 (counter ?st + 1)"
    using mx by (simp add: engine_unrecoverable_def example_env_def empty_state_def)
  have ot: "engine_other_failure failing_env example_params example_mesh 2 (counter ?st + 1)"
    using mx by (simp add: engine_other_failure_def failing_env_def example_env_def
        empty_state_def)
  have ca: "engine_calculates unpicklable_env example_params example_mesh 1
      (counter empty_state + 1) ''diagram''"
    using mx1 by (simp add: engine_calculates_def unpicklable_env_def example_env_def
        empty_state_def)
  have op: "can_open_wb unpicklable_env (point_path unpicklable_env example_params example_mesh 1)"
    and du: "pickle_dumps unpicklable_env ''diagram'' = None"
    by (simp_all add: unpicklable_env_def example_env_def)
  have nodir: "\<not> path_exists empty_state (output_dir example_params)"
    and mk: "can_makedirs failing_env (output_dir example_params)"
    by (simp_all add: path_exists_def empty_state_def failing_env_def example_env_def)
  note ok = C4_unrecoverable_skipped_others_propagate[where m = example_mesh and i = 2
      and env = example_env and st = ?st and P = example_params and c = "1 / 10"
      and rest = "[3]"]
  note bad = C4_unrecoverable_skipped_others_propagate[where m = example_mesh and i = 2
      and env = failing_env and st = ?st and P = example_params and c = "1 / 10"
      and rest = "[3]" and ?st0.0 = empty_state]
  note unp = C4_unrecoverable_skipped_others_propagate[where m = example_mesh and i = 1
      and env = unpicklable_env and st = empty_state and P = example_params and c = "1 / 10"]
  note skipped = ok[THEN conjunct1]
  note raised = bad[THEN conjunct2, THEN conjunct2, THEN conjunct1]
  note made = bad[THEN conjunct2, THEN conjunct2, THEN conjunct2, THEN conjunct2, THEN conjunct2, THEN conjunct2, THEN conjunct2, THEN conjunct2, THEN conjunct2, THEN conjunct2, THEN conjunct1]
  note other = bad[THEN conjunct2, THEN conjunct2, THEN conjunct2, THEN conjunct2, THEN conjunct2, THEN conjunct2, THEN conjunct2, THEN conjunct2, THEN conjunct2, THEN conjunct2, THEN conjunct2, THEN conjunct2, THEN conjunct1]
  note pickling = unp[THEN conjunct2, THEN conjunct2, THEN conjunct2, THEN conjunct2, THEN conjunct2, THEN conjunct2, THEN conjunct2, THEN conjunct2, THEN conjunct2, THEN conjunct2, THEN conjunct2, THEN conjunct2, THEN conjunct2, THEN conjunct2, THEN conjunct1]
  from skipped hp un obtain st' where
    a: "process_point example_env example_params example_mesh (1 / 10) 2 ?st = (Inr (), st')"
      "files st' = files ?st"
    by blast
  from other hp ot obtain st2 where
    b: "process_point failing_env example_params example_mesh (1 / 10) 2 ?st
          = (Inl EngineError, st2)"
    by blast
  with raised have
    c: "points_loop failing_env example_params example_mesh (1 / 10) [2, 3] ?st
          = (Inl EngineError, st2)"
    by blast
  from pickling hp1 ca op du obtain st3 where
    d: "process_point unpicklable_env example_params example_mesh (1 / 10) 1 empty_state
          = (Inl PicklingError, st3)"
    by blast
  from made nodir mk have
    e: "run_phase_diagram_calculations failing_env example_params empty_state =
        concentrations_loop failing_env example_params (constant_C_of_others example_params)
          (empty_state\<lparr>dirs := output_dir example_params # dirs empty_state,
             trace := [Makedirs (output_dir example_params)], counter := 0\<rparr>)"
    by blast
  from a c d e show ?thesis by (simp add: empty_state_def example_params_def)
qed

text \<open>
  C5 (as amended). For a grid point whose calculation succeeds and whose result can be
  written, the iteration writes the serialised result to exactly one file, in the output
  directory; the name of the file is \<^verbatim>\<open>Al..-Cr..-Co..-Fe..-Ni...pkl\<close>, made of the five mole
  fractions of the grid point as the formatting of floats prints them, unrounded; the
  fractions of Cr, Co, Fe and Ni are those of the conditions of the request. The name
  encodes the fractions: two grid points with the same path have the same five printed
  fractions, provided that a printed fraction contains none of the letters C, F and N.
\<close>

theorem C5_result_file_named_by_fractions:
  assumes hp: "has_point m i"
    and en: "engine_calculates env P m i (counter st + 1) g"
    and op: "can_open_wb env (point_path env P m i)"
    and du: "pickle_dumps env g = Some content"
  shows "(\<exists>st'. process_point env P m c i st = (Inr (), st') \<and>
            files st' = write_file (files st) (point_path env P m i) content \<and>
            map_of (files st') (point_path env P m i) = Some content) \<and>
         point_path env P m i =
           (if output_dir P = [] \<or> last (output_dir P) = CHR ''/'' then output_dir P
            else output_dir P @ ''/'') @
           ''Al'' @ float_str env (m ! 0 ! i) @ ''-Cr'' @ float_str env (m ! 1 ! i) @
           ''-Co'' @ float_str env (m ! 2 ! i) @ ''-Fe'' @ float_str env (m ! 3 ! i) @
           ''-Ni'' @ float_str env (m ! 4 ! i) @ ''.pkl'' \<and>
         condition_Cr (point_request P m i) = m ! 1 ! i \<and>
         condition_Co (point_request P m i) = m ! 2 ! i \<and>
         condition_Fe (point_request P m i) = m ! 3 ! i \<and>
         condition_Ni (point_request P m i) = m ! 4 ! i \<and>
         (\<forall>m' i'.
            (\<forall>s \<in> set (map (float_str env)
                 [m ! 0 ! i, m ! 1 ! i, m ! 2 ! i, m ! 3 ! i,
                  m' ! 0 ! i', m' ! 1 ! i', m' ! 2 ! i', m' ! 3 ! i']).
               CHR ''C'' \<notin> set s \<and> CHR ''F'' \<notin> set s \<and> CHR ''N'' \<notin> set s) \<and>
            point_path env P m i = point_path env P m' i' \<longrightarrow>
            float_str env (m ! 0 ! i) = float_str env (m' ! 0 ! i') \<and>
            float_str env (m ! 1 ! i) = float_str env (m' ! 1 ! i') \<and>
            float_str env (m ! 2 ! i) = float_str env (m' ! 2 ! i') \<and>
            float_str env (m ! 3 ! i) = float_str env (m' ! 3 ! i') \<and>
            float_str env (m ! 4 ! i) = float_str env (m' ! 4 ! i'))"
proof (intro conjI)
  let ?st' = "st\<lparr>counter := counter st + 1,
                files := write_file (files st) (point_path env P m i) content,
                trace := trace st @ [PrintCalculating (counter st + 1), SessionEnter,
                  SelectSystem c i (database P) (element_list P),
                  Calculate c i (point_request P m i), PrintSaved (point_path env P m i),
                  SessionExit]\<rparr>"
  have "process_point env P m c i st = (Inr (), ?st')"
    using hp en op du by (rule process_point_saved)
  then show "\<exists>st'. process_point env P m c i st = (Inr (), st') \<and>
            files st' = write_file (files st) (point_path env P m i) content \<and>
            map_of (files st') (point_path env P m i) = Some content"
    by (intro exI[of _ ?st']) (simp add: map_of_write_file)
next
  show "point_path env P m i =
           (if output_dir P = [] \<or> last (output_dir P) = CHR ''/'' then output_dir P
            else output_dir P @ ''/'') @
           ''Al'' @ float_str env (m ! 0 ! i) @ ''-Cr'' @ float_str env (m ! 1 ! i) @
           ''-Co'' @ float_str env (m ! 2 ! i) @ ''-Fe'' @ float_str env (m ! 3 ! i) @
           ''-Ni'' @ float_str env (m ! 4 ! i) @ ''.pkl''"
    unfolding point_path_def os_path_join_pkl_filename by (simp add: pkl_filename_def)
next
  show "condition_Cr (point_request P m i) = m ! 1 ! i"
    by (simp add: point_request_def build_request_def)
next
  show "condition_Co (point_request P m i) = m ! 2 ! i"
    by (simp add: point_request_def build_request_def)
next
  show "condition_Fe (point_request P m i) = m ! 3 ! i"
    by (simp add: point_request_def build_request_def)
next
  show "condition_Ni (point_request P m i) = m ! 4 ! i"
    by (simp add: point_request_def build_request_def)
next
  show "\<forall>m' i'.
            (\<forall>s \<in> set (map (float_str env)
                 [m ! 0 ! i, m ! 1 ! i, m ! 2 ! i, m ! 3 ! i,
                  m' ! 0 ! i', m' ! 1 ! i', m' ! 2 ! i', m' ! 3 ! i']).
               CHR ''C'' \<notin> set s \<and> CHR ''F'' \<notin> set s \<and> CHR ''N'' \<notin> set s) \<and>
            point_path env P m i = point_path env P m' i' \<longrightarrow>
            float_str env (m ! 0 ! i) = float_str env (m' ! 0 ! i') \<and>
            float_str env (m ! 1 ! i) = float_str env (m' ! 1 ! i') \<and>
            float_str env (m ! 2 ! i) = float_str env (m' ! 2 ! i') \<and>
            float_str env (m ! 3 ! i) = float_str env (m' ! 3 ! i') \<and>
            float_str env (m ! 4 ! i) = float_str env (m' ! 4 ! i')"
  proof (intro allI impI, elim conjE)
    fix m' i'
    assume clean: "\<forall>s \<in> set (map (float_str env)
                 [m ! 0 ! i, m ! 1 ! i, m ! 2 ! i, m ! 3 ! i,
                  m' ! 0 ! i', m' ! 1 ! i', m' ! 2 ! i', m' ! 3 ! i']).
               CHR ''C'' \<notin> set s \<and> CHR ''F'' \<notin> set s \<and> CHR ''N'' \<notin> set s"
      and same: "point_path env P m i = point_path env P m' i'"
    from same have "pkl_filename (float_str env) (m ! 0 ! i) (m ! 1 ! i) (m ! 2 ! i) (m ! 3 ! i) (m ! 4 ! i)
        = pkl_filename (float_str env) (m' ! 0 ! i') (m' ! 1 ! i') (m' ! 2 ! i') (m' ! 3 ! i') (m' ! 4 ! i')"
      unfolding point_path_def os_path_join_pkl_filename by simp
    then have eq: "''Al'' @ float_str env (m ! 0 ! i) @ ''-Cr'' @ float_str env (m ! 1 ! i) @
           ''-Co'' @ float_str env (m ! 2 ! i) @ ''-Fe'' @ float_str env (m ! 3 ! i) @
           ''-Ni'' @ float_str env (m ! 4 ! i) @ ''.pkl''
         = ''Al'' @ float_str env (m' ! 0 ! i') @ ''-Cr'' @ float_str env (m' ! 1 ! i') @
           ''-Co'' @ float_str env (m' ! 2 ! i') @ ''-Fe'' @ float_str env (m' ! 3 ! i') @
           ''-Ni'' @ float_str env (m' ! 4 ! i') @ ''.pkl''"
      unfolding pkl_filename_def .
    show "float_str env (m ! 0 ! i) = float_str env (m' ! 0 ! i') \<and>
            float_str env (m ! 1 ! i) = float_str env (m' ! 1 ! i') \<and>
            float_str env (m ! 2 ! i) = float_str env (m' ! 2 ! i') \<and>
            float_str env (m ! 3 ! i) = float_str env (m' ! 3 ! i') \<and>
            float_str env (m ! 4 ! i) = float_str env (m' ! 4 ! i')"
      by (rule name_parts_inj[OF _ _ _ _ _ _ _ _ eq]) (use clean in simp_all)
  qed
qed

text \<open>
  C5 on the example: the first system is calculated and saved under the name of its five
  mole fractions.
\<close>

theorem C5_witness:
  "files (snd (process_point example_env example_params example_mesh (1 / 10) 1 empty_state))
     = [(''results/Al7_40-Cr21_40-Co1_10-Fe1_10-Ni1_10.pkl'', ''diagram'')]"
proof -
  have hp: "has_point example_mesh 1" by code_simp
  have mx: "max_concentration example_mesh 1 \<noteq> 0" by code_simp
  have en: "engine_calculates example_env example_params example_mesh 1
      (counter empty_state + 1) ''diagram''"
    using mx by (simp add: engine_calculates_def example_env_def empty_state_def)
  have op: "can_open_wb example_env (point_path example_env example_params example_mesh 1)"
    by (simp add: example_env_def)
  have du: "pickle_dumps example_env ''diagram'' = Some ''diagram''"
    by (simp add: example_env_def)
  have path: "point_path example_env example_params example_mesh 1
      = ''results/Al7_40-Cr21_40-Co1_10-Fe1_10-Ni1_10.pkl''"
    by code_simp
  from C5_result_file_named_by_fractions[OF hp en op du, of "1 / 10"]
  obtain st' where
    "process_point example_env example_params example_mesh (1 / 10) 1 empty_state = (Inr (), st')"
    "files st' = write_file (files empty_state)
       (point_path example_env example_params example_mesh 1) ''diagram''"
    by blast
  with path show ?thesis by (simp add: write_file_def empty_state_def)
qed

text \<open>
  C5 as stated fails: the fractions are not rounded in the name. With four grid points and
  \<open>c = 1/10\<close>, the first interior point has the fractions \<open>7/30\<close> and \<open>7/15\<close> of Al and Cr;
  the run writes the file named by these, and no file named by the fractions rounded (to
  three digits, the only rounding of the program: \<open>233/1000\<close> and \<open>467/1000\<close>).
\<close>

theorem C5_counterexample:
  "mesh_concentrations [''Al'', ''Cr'', ''Co'', ''Fe'', ''Ni''] 4 [0, 1] [2, 3, 4] (1 / 10)
     = Inr [[0, 7 / 30, 7 / 15, 7 / 10], [7 / 10, 7 / 15, 7 / 30, 0],
            [1 / 10, 1 / 10, 1 / 10, 1 / 10], [1 / 10, 1 / 10, 1 / 10, 1 / 10],
            [1 / 10, 1 / 10, 1 / 10, 1 / 10]] \<and>
   map fst (files (snd (run_phase_diagram_calculations example_env
       (example_params\<lparr>n_iterations := 4, constant_C_of_others := [1 / 10]\<rparr>) empty_state)))
     = [''results/Al7_30-Cr7_15-Co1_10-Fe1_10-Ni1_10.pkl''] \<and>
   rounded_point_path example_env example_params
       [[0, 7 / 30, 7 / 15, 7 / 10], [7 / 10, 7 / 15, 7 / 30, 0],
        [1 / 10, 1 / 10, 1 / 10, 1 / 10], [1 / 10, 1 / 10, 1 / 10, 1 / 10],
        [1 / 10, 1 / 10, 1 / 10, 1 / 10]] 1 3
     = ''results/Al233_1000-Cr467_1000-Co1_10-Fe1_10-Ni1_10.pkl'' \<and>
   rounded_point_path example_env example_params
       [[0, 7 / 30, 7 / 15, 7 / 10], [7 / 10, 7 / 15, 7 / 30, 0],
        [1 / 10, 1 / 10, 1 / 10, 1 / 10], [1 / 10, 1 / 10, 1 / 10, 1 / 10],
        [1 / 10, 1 / 10, 1 / 10, 1 / 10]] 1 3
     \<notin> set (map fst (files (snd (run_phase_diagram_calculations example_env
       (example_params\<lparr>n_iterations := 4, constant_C_of_others := [1 / 10]\<rparr>) empty_state))))"
  by code_simp

section \<open>The claim about saving and loading\<close>

text \<open>
  C9 (as amended). If the file can be opened for writing and \<^verbatim>\<open>pickle\<close> serialises the groups
  to bytes that it reads back as the same groups, then \<open>save_groups\<close> returns, the file
  holds these bytes, and \<open>load_groups\<close> on the same file name returns the groups.
\<close>

theorem C9_save_then_load:
  assumes op: "can_open_wb env filename"
    and du: "pickle_dumps env groups = Some content"
    and lo: "pickle_loads env content = Some groups"
  shows "\<exists>st'. save_groups env st groups filename = (Inr (), st') \<and>
           map_of (files st') filename = Some content \<and>
           load_groups env st' filename = Inr groups"
proof -
  let ?st' = "st\<lparr>files := write_file (files st) filename content\<rparr>"
  have "save_groups env st groups filename = (Inr (), ?st')"
    using op du by (simp add: save_groups_def Let_def write_file_twice)
  moreover have "map_of (files ?st') filename = Some content"
    by (simp add: map_of_write_file)
  moreover have "load_groups env ?st' filename = Inr groups"
    using lo by (simp add: load_groups_def map_of_write_file)
  ultimately show ?thesis by blast
qed

text \<open>C9 on the example environment.\<close>

theorem C9_witness:
  "fst (save_groups example_env empty_state ''diagram'' ''results/a.pkl'') = Inr () \<and>
   load_groups example_env
     (snd (save_groups example_env empty_state ''diagram'' ''results/a.pkl'')) ''results/a.pkl''
     = Inr ''diagram''"
proof -
  have "can_open_wb example_env ''results/a.pkl''"
    and "pickle_dumps example_env ''diagram'' = Some ''diagram''"
    and "pickle_loads example_env ''diagram'' = Some ''diagram''"
    by (simp_all add: example_env_def)
  from C9_save_then_load[OF this, of empty_state]
  show ?thesis by auto
qed

text \<open>
  C9 as stated fails for a file name that cannot be opened for writing: \<open>save_groups\<close>
  raises and writes nothing, and \<open>load_groups\<close> raises as well.
\<close>

theorem C9_counterexample:
  "save_groups readonly_env empty_state ''diagram'' ''results/a.pkl''
     = (Inl OSError, empty_state) \<and>
   load_groups readonly_env empty_state ''results/a.pkl'' = Inl OSError"
  by (simp add: save_groups_def load_groups_def readonly_env_def example_env_def
      empty_state_def)

end
